theory Spec2Isabelle
  imports Complex_Main
begin

section \<open>Strings and numbers of the host language\<close>

text \<open>
  A JavaScript string is a sequence of UTF-16 code units; a code unit is modelled as a
  natural number, so that the rupee sign (code unit 8377) and \<open>length\<close> are what the
  program sees. Numbers are modelled as exact reals: the finite values a well-formed
  receipt carries. Binary rounding of IEEE doubles is outside the model; the places where
  the program can produce a non-finite value (a division by zero) are written out as
  separate branches.
\<close>

type_synonym jsstring = "nat list"

definition js :: "string \<Rightarrow> jsstring" where
  "js s = map of_char s"

definition lower_unit :: "nat \<Rightarrow> nat" where
  \<comment> \<open>\<open>toLowerCase\<close> on the letters A to Z; every other code unit is left as it is\<close>
  "lower_unit c = (if 65 \<le> c \<and> c \<le> 90 then c + 32 else c)"

definition toLowerCase :: "jsstring \<Rightarrow> jsstring" where
  "toLowerCase s = map lower_unit s"

definition is_space :: "nat \<Rightarrow> bool" where
  \<comment> \<open>white space and line terminators, the class \<open>\s\<close> and what \<open>trim\<close> removes\<close>
  "is_space c = ((9 \<le> c \<and> c \<le> 13) \<or> c = 32 \<or> c = 160 \<or> c = 5760 \<or> (8192 \<le> c \<and> c \<le> 8202)
      \<or> c = 8232 \<or> c = 8233 \<or> c = 8239 \<or> c = 8287 \<or> c = 12288 \<or> c = 65279)"

definition trim :: "jsstring \<Rightarrow> jsstring" where
  "trim s = rev (dropWhile is_space (rev (dropWhile is_space s)))"

fun js_includes :: "jsstring \<Rightarrow> jsstring \<Rightarrow> bool" where
  "js_includes [] k = (k = [])"
| "js_includes (c # cs) k = (take (length k) (c # cs) = k \<or> js_includes cs k)"

fun indexOf_from :: "nat \<Rightarrow> 'a list \<Rightarrow> 'a \<Rightarrow> int" where
  "indexOf_from i [] x = - 1"
| "indexOf_from i (y # ys) x = (if y = x then int i else indexOf_from (i + 1) ys x)"

definition indexOf :: "'a list \<Rightarrow> 'a \<Rightarrow> int" where
  "indexOf xs x = indexOf_from 0 xs x"

definition is_multiple_of :: "real \<Rightarrow> real \<Rightarrow> bool" where
  \<comment> \<open>\<open>x % m === 0\<close> for a finite \<open>x\<close> and a positive \<open>m\<close>\<close>
  "is_multiple_of x m = (x = m * of_int \<lfloor>x / m\<rfloor>)"

section \<open>Data model\<close>

text \<open>
  The record of an item and the record of a receipt are the same for the parser and for
  the validator. They differ in one place: the parser divides by the quantity, and a
  quantity of zero gives a unit price that is not a finite number. The type of the unit
  price is therefore a parameter: a real number in a well-formed receipt, a \<open>jsnum\<close> in
  what the parser returns.
\<close>

datatype jsnum = Finite real | PosInfinity

record 'u Item =
  name :: jsstring
  quantity :: real
  unitPrice :: 'u
  price :: real

type_synonym LineItem = "real Item"

type_synonym ParsedItem = "jsnum Item"

record 'i Bill =
  date :: jsstring
  storeName :: jsstring
  storeAddress :: jsstring
  billNumber :: jsstring
  items :: "'i list"
  subtotal :: real
  tax :: real
  taxRate :: real
  discount :: real
  total :: real
  currency :: jsstring
  rawText :: jsstring

type_synonym Receipt = "LineItem Bill"

type_synonym ParsedReceipt = "ParsedItem Bill"

datatype severity = Low | Medium | High

datatype issue_type =
  MATH_ERROR | TAX_ERROR | TOTAL_ERROR | DATE_ERROR | OLD_DATE | DUPLICATE_ITEMS
  | PRICE_OUTLIER | SUSPICIOUS_PATTERN | VALIDATION_ERROR

datatype issue_field = F_subtotal | F_item_price nat | F_tax | F_total | F_date | F_items

text \<open>
  An issue keeps its \<open>type\<close>, \<open>severity\<close> and \<open>field\<close>. The \<open>message\<close>, \<open>expected\<close> and
  \<open>actual\<close> entries are formatted text and copies of numbers; no check reads them back,
  and they are left out.
\<close>

record ValidationIssue =
  itype :: issue_type
  severity :: severity
  field :: "issue_field option"

datatype check = mathVerification | taxValidation | totalCheck | dateValidation | patternAnalysis

record ValidationResult =
  isValid :: bool
  errors :: "ValidationIssue list"
  warnings :: "ValidationIssue list"
  confidenceScore :: int
  algorithmResults :: "check \<rightharpoonup> bool"

text \<open>
  What the validator takes from its host: the clock, the \<open>Date\<close> constructor on a string
  (\<open>None\<close> is an invalid date), the offset of local time, and the deduction for a warning
  of low severity.
\<close>

record Env =
  now_ms :: int
  date_parse :: "jsstring \<Rightarrow> int option"
  tz_offset_ms :: "int \<Rightarrow> int"
  lowWarningPenalty :: int

definition getDay :: "Env \<Rightarrow> int \<Rightarrow> int" where
  "getDay env t = ((t + tz_offset_ms env t) div 86400000 + 4) mod 7"

definition getHours :: "Env \<Rightarrow> int \<Rightarrow> int" where
  "getHours env t = ((t + tz_offset_ms env t) div 3600000) mod 24"

section \<open>State and exceptions\<close>

text \<open>
  Every check receives the two objects \<open>billData\<close> and \<open>validation\<close> and works by side
  effect. The state holds both; a step either ends normally or raises, and in both cases
  leaves a state behind.
\<close>

record vstate =
  billData :: Receipt
  validation :: ValidationResult

datatype exn = TypeError

datatype outcome = Normal vstate | Throw exn vstate

definition seq :: "outcome \<Rightarrow> (vstate \<Rightarrow> outcome) \<Rightarrow> outcome" where
  "seq r f = (case r of Normal s \<Rightarrow> f s | Throw e s \<Rightarrow> Throw e s)"

definition try_catch :: "outcome \<Rightarrow> (exn \<Rightarrow> vstate \<Rightarrow> outcome) \<Rightarrow> outcome" where
  "try_catch r h = (case r of Normal s \<Rightarrow> Normal s | Throw e s \<Rightarrow> h e s)"

definition state_of :: "outcome \<Rightarrow> vstate" where
  "state_of r = (case r of Normal s \<Rightarrow> s | Throw e s \<Rightarrow> s)"

definition issue :: "issue_type \<Rightarrow> severity \<Rightarrow> issue_field option \<Rightarrow> ValidationIssue" where
  "issue t sev f = \<lparr>itype = t, severity = sev, field = f\<rparr>"

definition push_error :: "ValidationIssue \<Rightarrow> vstate \<Rightarrow> vstate" where
  "push_error e s = s\<lparr>validation := (validation s)\<lparr>errors := errors (validation s) @ [e]\<rparr>\<rparr>"

definition push_warning :: "ValidationIssue \<Rightarrow> vstate \<Rightarrow> vstate" where
  "push_warning w s = s\<lparr>validation := (validation s)\<lparr>warnings := warnings (validation s) @ [w]\<rparr>\<rparr>"

definition set_result :: "check \<Rightarrow> vstate \<Rightarrow> vstate" where
  \<comment> \<open>\<open>validation.algorithmResults.c = true\<close>\<close>
  "set_result c s =
     s\<lparr>validation := (validation s)\<lparr>algorithmResults := (algorithmResults (validation s))(c \<mapsto> True)\<rparr>\<rparr>"

section \<open>The validation service\<close>

definition indianTaxRates :: "real list" where
  "indianTaxRates = [0, 5, 12, 18, 28]"

definition maxReasonablePrice :: real where
  "maxReasonablePrice = 10000"

definition maxBillAge :: real where
  "maxBillAge = 365"

subsection \<open>Algorithm 1: mathematical accuracy\<close>

definition calculatedSubtotal :: "LineItem list \<Rightarrow> real" where
  "calculatedSubtotal its = foldl (\<lambda>sum item. sum + price item) 0 its"

fun check_item_prices :: "nat \<Rightarrow> LineItem list \<Rightarrow> vstate \<Rightarrow> vstate" where
  "check_item_prices index [] s = s"
| "check_item_prices index (item # rest) s =
     check_item_prices (index + 1) rest
       (if abs (quantity item * unitPrice item - price item) > 0.01
        then push_error (issue MATH_ERROR Medium (Some (F_item_price index))) s
        else s)"

definition validateMathematicalAccuracy :: "vstate \<Rightarrow> outcome" where
  "validateMathematicalAccuracy s =
     try_catch
       (let b = billData s;
            s1 = (if abs (calculatedSubtotal (items b) - subtotal b) > 0.01
                  then push_error (issue MATH_ERROR High (Some F_subtotal)) s
                  else set_result mathVerification s)
        in Normal (check_item_prices 0 (items b) s1))
       (\<lambda>e s'. Normal (push_warning (issue MATH_ERROR Medium None) s'))"

subsection \<open>Algorithm 2: tax calculation\<close>

definition findClosestTaxRate :: "real \<Rightarrow> real" where
  \<comment> \<open>\<open>reduce\<close> without an initial value: the first rate starts as the closest\<close>
  "findClosestTaxRate actualRate =
     foldl (\<lambda>closest rate. if abs (rate - actualRate) < abs (closest - actualRate) then rate else closest)
       (hd indianTaxRates) (tl indianTaxRates)"

definition tax_amount_check :: "real \<Rightarrow> vstate \<Rightarrow> vstate" where
  "tax_amount_check closestValidRate s =
     (let b = billData s; expectedTax = (subtotal b * closestValidRate) / 100
      in if abs (expectedTax - tax b) > 0.01
         then push_error (issue TAX_ERROR Medium (Some F_tax)) s
         else s)"

definition validateTaxCalculations :: "vstate \<Rightarrow> outcome" where
  \<comment> \<open>With a subtotal of zero the rate \<open>tax / subtotal * 100\<close> is infinite: no rate is
      closer to it than the first one, and its distance to that rate exceeds the tolerance.\<close>
  "validateTaxCalculations s =
     try_catch
       (let b = billData s in
        if tax b = 0 then
          Normal (set_result taxValidation (push_warning (issue TAX_ERROR Low None) s))
        else if subtotal b = 0 then
          Normal (tax_amount_check (hd indianTaxRates)
                    (push_error (issue TAX_ERROR Medium (Some F_tax)) s))
        else
          (let actualTaxRate = (tax b / subtotal b) * 100;
               closestValidRate = findClosestTaxRate actualTaxRate;
               s1 = (if abs (actualTaxRate - closestValidRate) > 0.5
                     then push_error (issue TAX_ERROR Medium (Some F_tax)) s
                     else set_result taxValidation s)
           in Normal (tax_amount_check closestValidRate s1)))
       (\<lambda>e s'. Normal (push_warning (issue TAX_ERROR Medium None) s'))"

subsection \<open>Algorithm 3: total amount\<close>

definition validateTotalAmount :: "vstate \<Rightarrow> outcome" where
  "validateTotalAmount s =
     try_catch
       (let b = billData s;
            calculatedTotal = subtotal b + tax b - discount b;
            s1 = (if abs (calculatedTotal - total b) > 0.01
                  then push_error (issue TOTAL_ERROR High (Some F_total)) s
                  else set_result totalCheck s);
            s2 = (if total b < 0 then push_error (issue TOTAL_ERROR High (Some F_total)) s1 else s1);
            s3 = (if total b > 100000 then push_warning (issue TOTAL_ERROR Low (Some F_total)) s2 else s2)
        in Normal s3)
       (\<lambda>e s'. Normal (push_warning (issue TOTAL_ERROR Medium None) s'))"

subsection \<open>Algorithm 4: date logic\<close>

definition daysDifference :: "Env \<Rightarrow> int \<Rightarrow> real" where
  "daysDifference env billDate = real_of_int (now_ms env - billDate) / (1000 * 60 * 60 * 24)"

definition validateDateLogic :: "Env \<Rightarrow> vstate \<Rightarrow> outcome" where
  \<comment> \<open>An invalid date makes every comparison false: nothing is pushed for it.\<close>
  "validateDateLogic env s =
     try_catch
       (let b = billData s in
        if date b = [] then
          Normal (set_result dateValidation (push_warning (issue DATE_ERROR Low (Some F_date)) s))
        else
          (case date_parse env (date b) of
             None \<Rightarrow> Normal (set_result dateValidation s)
           | Some billDate \<Rightarrow>
               (let d = daysDifference env billDate;
                    s1 = (if d < - 1 then push_error (issue DATE_ERROR High (Some F_date)) s
                          else if d > maxBillAge then push_warning (issue OLD_DATE Low (Some F_date)) s
                          else s);
                    s2 = (if getDay env billDate = 0 \<and> total b > 1000
                          then push_warning (issue DATE_ERROR Low None) s1 else s1)
                in Normal (set_result dateValidation s2))))
       (\<lambda>e s'. Normal (push_warning (issue DATE_ERROR Low None) s'))"

subsection \<open>Algorithm 5: pattern analysis\<close>

definition detectDuplicateItems :: "vstate \<Rightarrow> vstate" where
  "detectDuplicateItems s =
     (let itemNames = map (\<lambda>item. trim (toLowerCase (name item))) (items (billData s));
          duplicates = filter (\<lambda>(nm, index). indexOf itemNames nm \<noteq> int index)
                         (zip itemNames [0 ..< length itemNames])
      in if length duplicates > 0
         then push_warning (issue DUPLICATE_ITEMS Medium (Some F_items)) s
         else s)"

definition zScore_exceeds :: "real \<Rightarrow> real \<Rightarrow> bool" where
  \<comment> \<open>\<open>Math.abs(item.price - mean) / stdDev > 2\<close>: with a deviation of zero the quotient is
      infinite for a positive distance and not a number for the distance zero\<close>
  "zScore_exceeds d stdDev = (if stdDev = 0 then d > 0 else d / stdDev > 2)"

definition detectPriceOutliers :: "vstate \<Rightarrow> vstate" where
  "detectPriceOutliers s =
     (let its = items (billData s) in
      if length its < 3 then s
      else
        (let prices = map price its;
             mean = foldl (\<lambda>sum p. sum + p) 0 prices / real (length prices);
             stdDev = sqrt (foldl (\<lambda>sum p. sum + (p - mean) ^ 2) 0 prices / real (length prices));
             outliers = filter (\<lambda>item. zScore_exceeds (abs (price item - mean)) stdDev
                                        \<and> price item > maxReasonablePrice) its
         in if length outliers > 0
            then push_warning (issue PRICE_OUTLIER Low (Some F_items)) s
            else s))"

definition analyzeQuantityPatterns :: "vstate \<Rightarrow> vstate" where
  "analyzeQuantityPatterns s =
     (let unusualQuantities = filter (\<lambda>item. quantity item > 100 \<or> quantity item \<le> 0) (items (billData s))
      in if length unusualQuantities > 0
         then push_warning (issue SUSPICIOUS_PATTERN Low (Some F_items)) s
         else s)"

definition detectSuspiciousRounding :: "vstate \<Rightarrow> vstate" where
  "detectSuspiciousRounding s =
     (let b = billData s;
          roundPrices = length (filter (\<lambda>item. is_multiple_of (price item) 1) (items b));
          totalItems = length (items b);
          s1 = (if roundPrices = totalItems \<and> totalItems > 3
                then push_warning (issue SUSPICIOUS_PATTERN Low None) s else s)
      in if is_multiple_of (total b) 10 \<and> total b > 100
         then push_warning (issue SUSPICIOUS_PATTERN Low None) s1
         else s1)"

definition analyzePatterns :: "vstate \<Rightarrow> outcome" where
  "analyzePatterns s =
     try_catch
       (Normal (set_result patternAnalysis
          (detectSuspiciousRounding (analyzeQuantityPatterns (detectPriceOutliers (detectDuplicateItems s))))))
       (\<lambda>e s'. Normal (push_warning (issue SUSPICIOUS_PATTERN Low None) s'))"

subsection \<open>Business logic\<close>

datatype category = food | alcohol | baby | medical

definition categoryKeywords :: "(category \<times> jsstring list) list" where
  "categoryKeywords =
     [(food, map js [''rice'', ''bread'', ''milk'', ''egg'', ''chicken'', ''vegetable'', ''fruit'']),
      (alcohol, map js [''beer'', ''wine'', ''whisky'', ''vodka'', ''rum'']),
      (baby, map js [''diaper'', ''formula'', ''baby'', ''infant'']),
      (medical, map js [''medicine'', ''tablet'', ''syrup'', ''bandage''])]"

definition categorizeItems :: "LineItem list \<Rightarrow> category list" where
  "categorizeItems its =
     foldl (\<lambda>categories item.
        foldl (\<lambda>categories (cat, keywords).
            if list_ex (\<lambda>keyword. js_includes (toLowerCase (name item)) keyword) keywords
               \<and> \<not> List.member categories cat
            then categories @ [cat] else categories)
          categories categoryKeywords)
       [] its"

definition validateItemCombinations :: "vstate \<Rightarrow> vstate" where
  "validateItemCombinations s =
     (let itemCategories = categorizeItems (items (billData s))
      in if List.member itemCategories baby \<and> List.member itemCategories alcohol
         then push_warning (issue SUSPICIOUS_PATTERN Low None) s
         else s)"

text \<open>
  \<open>validatePricingConsistency\<close> groups the items in a plain object keyed by the lower-cased
  name. A plain object inherits the members of \<open>Object.prototype\<close>; two of them have a name
  that lower-casing leaves unchanged, \<open>constructor\<close> and \<open>__proto__\<close>. For such a key the
  lookup finds the inherited member, which is truthy and has no \<open>push\<close>, and the call
  \<open>duplicateItems[key].push(item)\<close> raises a \<open>TypeError\<close>.
\<close>

definition inherited_key :: "jsstring \<Rightarrow> bool" where
  "inherited_key k = (k = js ''constructor'' \<or> k = js ''__proto__'')"

fun group_items :: "LineItem list \<Rightarrow> (jsstring \<times> LineItem list) list
    \<Rightarrow> exn + (jsstring \<times> LineItem list) list" where
  "group_items [] duplicateItems = Inr duplicateItems"
| "group_items (item # rest) duplicateItems =
     (let key = toLowerCase (name item) in
      if inherited_key key then Inl TypeError
      else if list_ex (\<lambda>(k, grp). k = key) duplicateItems
      then group_items rest (map (\<lambda>(k, grp). if k = key then (k, grp @ [item]) else (k, grp)) duplicateItems)
      else group_items rest (duplicateItems @ [(key, [item])]))"

fun check_groups :: "(jsstring \<times> LineItem list) list \<Rightarrow> vstate \<Rightarrow> vstate" where
  "check_groups [] s = s"
| "check_groups ((nm, grp) # rest) s =
     check_groups rest
       (if length grp > 1 \<and> length (remdups (map unitPrice grp)) > 1
        then push_warning (issue PRICE_OUTLIER Medium None) s
        else s)"

definition validatePricingConsistency :: "vstate \<Rightarrow> outcome" where
  "validatePricingConsistency s =
     (case group_items (items (billData s)) [] of
        Inl e \<Rightarrow> Throw e s
      | Inr duplicateItems \<Rightarrow> Normal (check_groups duplicateItems s))"

definition validateBusinessLogic :: "vstate \<Rightarrow> outcome" where
  "validateBusinessLogic s =
     (let s1 = (if total (billData s) < 1 then push_error (issue TOTAL_ERROR High None) s else s)
      in validatePricingConsistency (validateItemCombinations s1))"

subsection \<open>Anomaly detection\<close>

fun lead_nat :: "nat \<Rightarrow> nat" where
  "lead_nat n = (if n < 10 then n else lead_nat (n div 10))"

declare lead_nat.simps [simp del]

function lead_digit :: "real \<Rightarrow> nat" where
  "lead_digit x = (if x \<le> 0 \<or> 1 \<le> x then lead_nat (nat \<lfloor>x\<rfloor>) else lead_digit (10 * x))"
  by pat_completeness auto
termination
proof (relation "measure (\<lambda>x. nat \<lceil>- log 10 x\<rceil>)")
  show "wf (measure (\<lambda>x. nat \<lceil>- log 10 x\<rceil>))" by simp
next
  fix x :: real
  assume "\<not> (x \<le> 0 \<or> 1 \<le> x)"
  then have pos: "0 < x" and lt: "x < 1" by auto
  have e: "log 10 (10 * x) = 1 + log 10 x" using pos by (simp add: log_mult)
  have n: "log 10 x < 0" using pos lt by simp
  have "- log 10 (10 * x) = - log 10 x - 1" using e by simp
  then have c: "\<lceil>- log 10 (10 * x)\<rceil> = \<lceil>- log 10 x\<rceil> - 1" by (simp only: ceiling_diff_one)
  have "0 < \<lceil>- log 10 x\<rceil>" using n by (simp add: zero_less_ceiling)
  then have "nat \<lceil>- log 10 (10 * x)\<rceil> < nat \<lceil>- log 10 x\<rceil>" using c by linarith
  then show "(10 * x, x) \<in> measure (\<lambda>x. nat \<lceil>- log 10 x\<rceil>)" by simp
qed

declare lead_digit.simps [simp del]

definition first_char :: "real \<Rightarrow> nat" where
  \<comment> \<open>\<open>price.toString().charAt(0)\<close>: the minus sign, the digit 0 for zero and for a value
      from a millionth up to one, the leading significant digit otherwise\<close>
  "first_char x =
     (if x < 0 then 45
      else if x = 0 \<or> (1 / 1000000 \<le> x \<and> x < 1) then 48
      else 48 + lead_digit x)"

definition count_of :: "nat list \<Rightarrow> nat \<Rightarrow> nat" where
  "count_of ds k = length (filter (\<lambda>d. d = k) ds)"

definition digit_keys :: "nat list \<Rightarrow> nat list" where
  \<comment> \<open>\<open>Object.keys(digitCounts)\<close>: the keys that are digits in ascending order, then the
      others in the order of their first insertion\<close>
  "digit_keys ds =
     filter (\<lambda>k. List.member ds k) [49 ..< 58]
     @ rev (remdups (rev (filter (\<lambda>k. \<not> (48 \<le> k \<and> k \<le> 57)) ds)))"

definition checkBenfordsLaw :: "vstate \<Rightarrow> outcome" where
  \<comment> \<open>\<open>reduce\<close> without an initial value raises a \<open>TypeError\<close> on an empty array\<close>
  "checkBenfordsLaw s =
     (let its = items (billData s) in
      if length its < 10 then Normal s
      else
        (let firstDigits = filter (\<lambda>digit. digit \<noteq> 48) (map (\<lambda>item. first_char (price item)) its)
         in case digit_keys firstDigits of
              [] \<Rightarrow> Throw TypeError s
            | k # ks \<Rightarrow>
                (let mostCommonDigit =
                       foldl (\<lambda>a b. if count_of firstDigits a > count_of firstDigits b then a else b) k ks
                 in if mostCommonDigit \<noteq> 49 \<and> length firstDigits > 20
                    then Normal (push_warning (issue SUSPICIOUS_PATTERN Low None) s)
                    else Normal s)))"

definition checkTimingAnomalies :: "Env \<Rightarrow> vstate \<Rightarrow> vstate" where
  "checkTimingAnomalies env s =
     (if date (billData s) = [] then s
      else
        (case date_parse env (date (billData s)) of
           None \<Rightarrow> s
         | Some billDate \<Rightarrow>
             (let hour = getHours env billDate
              in if hour < 6 \<or> hour > 23
                 then push_warning (issue DATE_ERROR Low None) s
                 else s)))"

definition detectAnomalies :: "Env \<Rightarrow> vstate \<Rightarrow> outcome" where
  \<comment> \<open>the handler only logs\<close>
  "detectAnomalies env s =
     try_catch
       (seq (checkBenfordsLaw s) (\<lambda>s1. Normal (checkTimingAnomalies env s1)))
       (\<lambda>e s'. Normal s')"

subsection \<open>Confidence score\<close>

definition error_deduction :: "severity \<Rightarrow> int" where
  "error_deduction sev = (case sev of High \<Rightarrow> 25 | Medium \<Rightarrow> 15 | Low \<Rightarrow> 5)"

text \<open>
  Modelled from the spec: the source text of \<open>calculateConfidenceScore\<close> ends inside the
  \<open>switch\<close> over a warning's severity, after the cases \<open>high\<close> and \<open>medium\<close>. Missing are
  the deduction for a warning of low severity, which is taken from the environment, and
  the end of the function, for which the specification says that the score is clamped
  at 0.
\<close>

definition warning_deduction :: "Env \<Rightarrow> severity \<Rightarrow> int" where
  "warning_deduction env sev = (case sev of High \<Rightarrow> 10 | Medium \<Rightarrow> 5 | Low \<Rightarrow> lowWarningPenalty env)"

definition calculateConfidenceScore :: "Env \<Rightarrow> ValidationResult \<Rightarrow> int" where
  "calculateConfidenceScore env v =
     (let score = foldl (\<lambda>score e. score - error_deduction (severity e)) 100 (errors v);
          score = foldl (\<lambda>score w. score - warning_deduction env (severity w)) score (warnings v)
      in max 0 score)"

subsection \<open>The main validation function\<close>

definition initial_validation :: ValidationResult where
  "initial_validation =
     \<lparr>isValid = True, errors = [], warnings = [], confidenceScore = 100,
      algorithmResults = [mathVerification \<mapsto> False, taxValidation \<mapsto> False, totalCheck \<mapsto> False,
                          dateValidation \<mapsto> False, patternAnalysis \<mapsto> False]\<rparr>"

definition failure_result :: ValidationResult where
  "failure_result =
     \<lparr>isValid = False, errors = [issue VALIDATION_ERROR High None], warnings = [],
      confidenceScore = 0, algorithmResults = Map.empty\<rparr>"

definition run_checks :: "Env \<Rightarrow> vstate \<Rightarrow> outcome" where
  "run_checks env s0 =
     seq (validateMathematicalAccuracy s0) (\<lambda>s1.
     seq (validateTaxCalculations s1) (\<lambda>s2.
     seq (validateTotalAmount s2) (\<lambda>s3.
     seq (validateDateLogic env s3) (\<lambda>s4.
     seq (analyzePatterns s4) (\<lambda>s5.
     seq (validateBusinessLogic s5) (\<lambda>s6.
     detectAnomalies env s6))))))"

definition finish :: "Env \<Rightarrow> vstate \<Rightarrow> vstate" where
  "finish env s =
     (let s1 = s\<lparr>validation := (validation s)\<lparr>isValid := (length (errors (validation s)) = 0)\<rparr>\<rparr>
      in s1\<lparr>validation := (validation s1)\<lparr>confidenceScore := calculateConfidenceScore env (validation s1)\<rparr>\<rparr>)"

definition validateBill_run :: "Env \<Rightarrow> Receipt \<Rightarrow> outcome" where
  \<comment> \<open>the whole call: the state it ends in holds the input object and the object returned\<close>
  "validateBill_run env b =
     try_catch
       (seq (run_checks env \<lparr>billData = b, validation = initial_validation\<rparr>)
            (\<lambda>s. Normal (finish env s)))
       (\<lambda>e s'. Normal (s'\<lparr>validation := failure_result\<rparr>))"

definition validateBill :: "Env \<Rightarrow> Receipt \<Rightarrow> ValidationResult" where
  "validateBill env b = validation (state_of (validateBill_run env b))"

section \<open>A host for worked examples\<close>

text \<open>
  The \<open>Date\<close> constructor on a date-only string \<open>YYYY-MM-DD\<close> gives midnight of that day in
  universal time, in milliseconds since 1 January 1970. The example host reads this form
  only and takes every other string as an invalid date; its local time is universal time.
\<close>

fun digits_value :: "int \<Rightarrow> nat list \<Rightarrow> int option" where
  "digits_value acc [] = Some acc"
| "digits_value acc (c # cs) =
     (if 48 \<le> c \<and> c \<le> 57 then digits_value (10 * acc + (int c - 48)) cs else None)"

definition is_leap :: "int \<Rightarrow> bool" where
  "is_leap y = (y mod 4 = 0 \<and> (y mod 100 \<noteq> 0 \<or> y mod 400 = 0))"

definition days_in_month :: "int \<Rightarrow> int \<Rightarrow> int" where
  "days_in_month y m =
     (if m = 2 then (if is_leap y then 29 else 28)
      else if m = 4 \<or> m = 6 \<or> m = 9 \<or> m = 11 then 30 else 31)"

definition days_from_civil :: "int \<Rightarrow> int \<Rightarrow> int \<Rightarrow> int" where
  \<comment> \<open>days from 1 January 1970 to the given day of the proleptic Gregorian calendar\<close>
  "days_from_civil y m d =
     (let y' = (if m \<le> 2 then y - 1 else y);
          era = y' div 400;
          yoe = y' - era * 400;
          mp = (m + 9) mod 12;
          doy = (153 * mp + 2) div 5 + d - 1;
          doe = yoe * 365 + yoe div 4 - yoe div 100 + doy
      in era * 146097 + doe - 719468)"

definition iso_date_parse :: "jsstring \<Rightarrow> int option" where
  "iso_date_parse s =
     (if length s = 10 \<and> s ! 4 = 45 \<and> s ! 7 = 45 then
        (case (digits_value 0 (take 4 s), digits_value 0 (take 2 (drop 5 s)), digits_value 0 (drop 8 s)) of
           (Some y, Some m, Some d) \<Rightarrow>
             if 1 \<le> m \<and> m \<le> 12 \<and> 1 \<le> d \<and> d \<le> days_in_month y m
             then Some (days_from_civil y m d * 86400000) else None
         | _ \<Rightarrow> None)
      else None)"

definition utc_host :: "int \<Rightarrow> Env" where
  \<comment> \<open>the deduction for a low warning is a sample value; no statement below depends on it\<close>
  "utc_host now =
     \<lparr>now_ms = now, date_parse = iso_date_parse, tz_offset_ms = (\<lambda>t. 0), lowWarningPenalty = 2\<rparr>"

definition noon_2025_01_01 :: int where
  \<comment> \<open>2025-01-01T12:00:00Z\<close>
  "noon_2025_01_01 = 1735732800000"

definition exceptional :: "Env \<Rightarrow> Receipt \<Rightarrow> bool" where
  \<comment> \<open>an exception leaves the checks and reaches the handler of \<open>validateBill\<close>\<close>
  "exceptional env b =
     (case run_checks env \<lparr>billData = b, validation = initial_validation\<rparr> of
        Normal s \<Rightarrow> False
      | Throw e s \<Rightarrow> True)"

section \<open>Regular expressions of the host language\<close>

text \<open>
  The parser works with regular expressions. A pattern is a term of \<open>rx\<close>. For a text and
  the code unit before it, \<open>rx_matches\<close> lists the ways in which the pattern matches a
  prefix of the text, in the order of preference of a backtracking matcher: the left
  alternative first, the longer repetition first. Each entry holds the text consumed,
  the texts of the capturing groups and the rest.
\<close>

datatype cclass =
  Unit nat
  | Range nat nat
  | Space
  | Dot

fun in_class :: "cclass \<Rightarrow> nat \<Rightarrow> bool" where
  "in_class (Unit u) c = (c = u)"
| "in_class (Range lo hi) c = (lo \<le> c \<and> c \<le> hi)"
| "in_class Space c = is_space c"
| "in_class Dot c = (c \<noteq> 10 \<and> c \<noteq> 13 \<and> c \<noteq> 8232 \<and> c \<noteq> 8233)"

datatype rx =
  Eps
  | Chr "cclass list"
  | Seq rx rx
  | Alt rx rx
  | Star rx
  | Group rx
  | WordBoundary
  | LineStart
  | LineEnd

type_synonym rmatch = "jsstring \<times> jsstring list \<times> jsstring"

definition is_word_unit :: "nat \<Rightarrow> bool" where
  "is_word_unit c = ((48 \<le> c \<and> c \<le> 57) \<or> (65 \<le> c \<and> c \<le> 90) \<or> c = 95 \<or> (97 \<le> c \<and> c \<le> 122))"

definition word_before :: "nat option \<Rightarrow> bool" where
  "word_before prev = (case prev of None \<Rightarrow> False | Some c \<Rightarrow> is_word_unit c)"

definition word_ahead :: "jsstring \<Rightarrow> bool" where
  "word_ahead s = (case s of [] \<Rightarrow> False | c # cs \<Rightarrow> is_word_unit c)"

definition last_unit :: "nat option \<Rightarrow> jsstring \<Rightarrow> nat option" where
  \<comment> \<open>the code unit before the position reached after the text \<open>consumed\<close>\<close>
  "last_unit prev consumed = (if consumed = [] then prev else Some (last consumed))"

definition then_match :: "rmatch \<Rightarrow> rmatch \<Rightarrow> rmatch" where
  "then_match m m' = (fst m @ fst m', fst (snd m) @ fst (snd m'), snd (snd m'))"

function rx_matches :: "rx \<Rightarrow> nat option \<Rightarrow> jsstring \<Rightarrow> rmatch list" where
  "rx_matches Eps prev s = [([], [], s)]"
| "rx_matches (Chr cs) prev s =
     (case s of
        [] \<Rightarrow> []
      | c # rest \<Rightarrow> if list_ex (\<lambda>k. in_class k c) cs then [([c], [], rest)] else [])"
| "rx_matches (Seq a b) prev s =
     concat (map (\<lambda>m. map (then_match m) (rx_matches b (last_unit prev (fst m)) (snd (snd m))))
               (rx_matches a prev s))"
| "rx_matches (Alt a b) prev s = rx_matches a prev s @ rx_matches b prev s"
| "rx_matches (Star a) prev s =
     concat (map (\<lambda>m. if length (snd (snd m)) < length s
                        then map (then_match m)
                               (rx_matches (Star a) (last_unit prev (fst m)) (snd (snd m)))
                        else [])
               (rx_matches a prev s))
     @ [([], [], s)]"
| "rx_matches (Group a) prev s = map (\<lambda>m. (fst m, fst m # fst (snd m), snd (snd m))) (rx_matches a prev s)"
| "rx_matches WordBoundary prev s = (if word_before prev \<noteq> word_ahead s then [([], [], s)] else [])"
| "rx_matches LineStart prev s = (if prev = None then [([], [], s)] else [])"
| "rx_matches LineEnd prev s = (if s = [] then [([], [], s)] else [])"
  by pat_completeness auto
termination
  by (relation "measures [\<lambda>(r, prev, s). size r, \<lambda>(r, prev, s). length s]") auto

text \<open>
  A found match: the text passed over before it, its own text (\<open>match[0]\<close>), the texts of
  its groups and the text after it.
\<close>

record found =
  m_skipped :: jsstring
  m_text :: jsstring
  m_groups :: "jsstring list"
  m_after :: jsstring

fun rx_search :: "rx \<Rightarrow> nat option \<Rightarrow> jsstring \<Rightarrow> found option" where
  \<comment> \<open>the leftmost match, and of the matches that start there the preferred one\<close>
  "rx_search r prev [] =
     (case rx_matches r prev [] of
        m # ms \<Rightarrow> Some \<lparr>m_skipped = [], m_text = fst m, m_groups = fst (snd m), m_after = snd (snd m)\<rparr>
      | [] \<Rightarrow> None)"
| "rx_search r prev (c # cs) =
     (case rx_matches r prev (c # cs) of
        m # ms \<Rightarrow> Some \<lparr>m_skipped = [], m_text = fst m, m_groups = fst (snd m), m_after = snd (snd m)\<rparr>
      | [] \<Rightarrow>
          (case rx_search r (Some c) cs of
             None \<Rightarrow> None
           | Some m \<Rightarrow> Some (m\<lparr>m_skipped := c # m_skipped m\<rparr>)))"

fun add_skipped :: "nat \<Rightarrow> found list \<Rightarrow> found list" where
  "add_skipped c [] = []"
| "add_skipped c (m # ms) = m\<lparr>m_skipped := c # m_skipped m\<rparr> # ms"

function rx_matchAll :: "rx \<Rightarrow> nat option \<Rightarrow> jsstring \<Rightarrow> found list" where
  \<comment> \<open>the matches of a global pattern from left to right; after an empty match the search
      moves on by one code unit\<close>
  "rx_matchAll r prev s =
     (case rx_search r prev s of
        None \<Rightarrow> []
      | Some m \<Rightarrow>
          m # (if m_text m \<noteq> [] then
                 (if length (m_after m) < length s
                  then rx_matchAll r (last_unit prev (m_skipped m @ m_text m)) (m_after m)
                  else [])
               else
                 (case m_after m of
                    [] \<Rightarrow> []
                  | c # cs \<Rightarrow> if length cs < length s then add_skipped c (rx_matchAll r (Some c) cs) else [])))"
  by pat_completeness auto
termination
  by (relation "measure (\<lambda>(r, prev, s). length s)") auto

declare rx_matchAll.simps [simp del]

definition rx_test :: "rx \<Rightarrow> jsstring \<Rightarrow> bool" where
  "rx_test r s = (rx_search r None s \<noteq> None)"

definition group1 :: "found \<Rightarrow> jsstring" where
  \<comment> \<open>\<open>match[1]\<close>, for a pattern whose first group takes part in every match\<close>
  "group1 m = (case m_groups m of [] \<Rightarrow> [] | g # gs \<Rightarrow> g)"

definition rx_replace_all :: "rx \<Rightarrow> jsstring \<Rightarrow> jsstring \<Rightarrow> jsstring" where
  \<comment> \<open>\<open>s.replace(r, rep)\<close> for a global pattern\<close>
  "rx_replace_all r rep s =
     (case rx_matchAll r None s of
        [] \<Rightarrow> s
      | m # ms \<Rightarrow> concat (map (\<lambda>m. m_skipped m @ rep) (m # ms)) @ m_after (last (m # ms)))"

definition rx_replace_first :: "rx \<Rightarrow> jsstring \<Rightarrow> jsstring \<Rightarrow> jsstring" where
  \<comment> \<open>\<open>s.replace(r, rep)\<close> for a pattern that is not global\<close>
  "rx_replace_first r rep s =
     (case rx_search r None s of None \<Rightarrow> s | Some m \<Rightarrow> m_skipped m @ rep @ m_after m)"

fun str_replace_first :: "jsstring \<Rightarrow> jsstring \<Rightarrow> jsstring \<Rightarrow> jsstring" where
  \<comment> \<open>\<open>s.replace(pat, rep)\<close> for a string \<open>pat\<close>: its first occurrence\<close>
  "str_replace_first pat rep [] = (if pat = [] then rep else [])"
| "str_replace_first pat rep (c # cs) =
     (if take (length pat) (c # cs) = pat then rep @ drop (length pat) (c # cs)
      else c # str_replace_first pat rep cs)"

subsection \<open>Building patterns\<close>

definition unit_of :: "char \<Rightarrow> nat" where
  "unit_of c = of_char c"

definition digit :: rx where
  "digit = Chr [Range 48 57]"

definition space :: rx where
  "space = Chr [Space]"

definition ch :: "char \<Rightarrow> rx" where
  "ch c = Chr [Unit (unit_of c)]"

definition upper_unit :: "nat \<Rightarrow> nat" where
  "upper_unit c = (if 97 \<le> c \<and> c \<le> 122 then c - 32 else c)"

definition ch_i :: "char \<Rightarrow> rx" where
  \<comment> \<open>a letter under the flag \<open>i\<close>: the letter in either case\<close>
  "ch_i c = Chr [Unit (lower_unit (unit_of c)), Unit (upper_unit (unit_of c))]"

fun seqs :: "rx list \<Rightarrow> rx" where
  "seqs [] = Eps"
| "seqs [r] = r"
| "seqs (r # rs) = Seq r (seqs rs)"

fun alts :: "rx list \<Rightarrow> rx" where
  "alts [] = Chr []"
| "alts [r] = r"
| "alts (r # rs) = Alt r (alts rs)"

definition lit :: "string \<Rightarrow> rx" where
  "lit w = seqs (map ch w)"

definition lit_i :: "string \<Rightarrow> rx" where
  "lit_i w = seqs (map ch_i w)"

definition opt :: "rx \<Rightarrow> rx" where
  \<comment> \<open>\<open>r?\<close>\<close>
  "opt r = Alt r Eps"

definition plus :: "rx \<Rightarrow> rx" where
  \<comment> \<open>\<open>r+\<close>\<close>
  "plus r = Seq r (Star r)"

fun upto_times :: "nat \<Rightarrow> rx \<Rightarrow> rx" where
  \<comment> \<open>\<open>r{0,n}\<close>\<close>
  "upto_times 0 r = Eps"
| "upto_times (Suc n) r = opt (Seq r (upto_times n r))"

fun times :: "nat \<Rightarrow> rx \<Rightarrow> rx \<Rightarrow> rx" where
  \<comment> \<open>\<open>r{n}\<close> followed by \<open>k\<close>\<close>
  "times 0 r k = k"
| "times (Suc n) r k = Seq r (times n r k)"

definition rep :: "nat \<Rightarrow> nat \<Rightarrow> rx \<Rightarrow> rx" where
  \<comment> \<open>\<open>r{n,m}\<close>\<close>
  "rep n m r = times n r (upto_times (m - n) r)"

definition at_least :: "nat \<Rightarrow> rx \<Rightarrow> rx" where
  \<comment> \<open>\<open>r{n,}\<close>\<close>
  "at_least n r = times n r (Star r)"

section \<open>The bill parser\<close>

subsection \<open>Numbers and dates as text\<close>

definition is_digit :: "nat \<Rightarrow> bool" where
  "is_digit c = (48 \<le> c \<and> c \<le> 57)"

fun digits_nat :: "nat \<Rightarrow> jsstring \<Rightarrow> nat" where
  "digits_nat acc [] = acc"
| "digits_nat acc (c # cs) = digits_nat (10 * acc + (c - 48)) cs"

definition parseInt :: "jsstring \<Rightarrow> nat" where
  \<comment> \<open>on a string of digits\<close>
  "parseInt s = digits_nat 0 (takeWhile is_digit s)"

definition parseFloat :: "jsstring \<Rightarrow> real" where
  \<comment> \<open>on digits with an optional fraction, the strings the patterns capture\<close>
  "parseFloat s =
     (let whole = takeWhile is_digit s;
          rest = dropWhile is_digit s;
          frac = (case rest of [] \<Rightarrow> [] | c # cs \<Rightarrow> if c = 46 then takeWhile is_digit cs else [])
      in real (digits_nat 0 whole) + real (digits_nat 0 frac) / 10 ^ length frac)"

definition toFixed2 :: "real \<Rightarrow> real" where
  \<comment> \<open>\<open>parseFloat(x.toFixed(2))\<close>: the nearest multiple of a hundredth, the larger one of
      two; from \<open>1e21\<close> on \<open>toFixed\<close> prints the number itself\<close>
  "toFixed2 x =
     (if 10 ^ 21 \<le> abs x then x
      else sgn x * (real_of_int \<lfloor>abs x * 100 + 1 / 2\<rfloor> / 100))"

fun pad_digits :: "nat \<Rightarrow> nat \<Rightarrow> jsstring" where
  "pad_digits 0 n = []"
| "pad_digits (Suc w) n = pad_digits w (n div 10) @ [48 + n mod 10]"

definition civil_from_days :: "int \<Rightarrow> int \<times> int \<times> int" where
  \<comment> \<open>year, month and day of a count of days from 1 January 1970\<close>
  "civil_from_days z =
     (let z' = z + 719468;
          era = z' div 146097;
          doe = z' - era * 146097;
          yoe = (doe - doe div 1460 + doe div 36524 - doe div 146096) div 365;
          doy = doe - (365 * yoe + yoe div 4 - yoe div 100);
          mp = (5 * doy + 2) div 153;
          d = doy - (153 * mp + 2) div 5 + 1;
          m = (if mp < 10 then mp + 3 else mp - 9);
          y = yoe + era * 400 + (if m \<le> 2 then 1 else 0)
      in (y, m, d))"

definition toISODate :: "int \<Rightarrow> jsstring" where
  \<comment> \<open>\<open>date.toISOString().split('T')[0]\<close> of a valid date\<close>
  "toISODate t =
     (case civil_from_days (t div 86400000) of
        (y, m, d) \<Rightarrow>
          (if 0 \<le> y \<and> y \<le> 9999 then pad_digits 4 (nat y)
           else (if y < 0 then [45] else [43]) @ pad_digits 6 (nat (abs y)))
          @ [45] @ pad_digits 2 (nat m) @ [45] @ pad_digits 2 (nat d))"

subsection \<open>The patterns of the parser\<close>

definition date_separator :: rx where
  "date_separator = Chr [Unit 47, Unit 45]"

definition datePatterns :: "rx list" where
  "datePatterns =
     [seqs [Group (rep 1 2 digit), date_separator, Group (rep 1 2 digit), date_separator,
            Group (rep 2 4 digit)],
      seqs [Group (rep 2 4 digit), date_separator, Group (rep 1 2 digit), date_separator,
            Group (rep 1 2 digit)],
      seqs [Group (rep 1 2 digit), Star space,
            Group (alts (map lit_i [''Jan'', ''Feb'', ''Mar'', ''Apr'', ''May'', ''Jun'', ''Jul'', ''Aug'',
                                    ''Sep'', ''Oct'', ''Nov'', ''Dec''])),
            Star space, Group (rep 2 4 digit)],
      seqs [Group (rep 1 2 digit), Star space,
            Group (alts (map lit_i [''January'', ''February'', ''March'', ''April'', ''May'', ''June'',
                                    ''July'', ''August'', ''September'', ''October'', ''November'',
                                    ''December''])),
            Star space, Group (rep 2 4 digit)]]"

definition amount :: rx where
  \<comment> \<open>\<open>\d+(?:,\d{3})*(?:\.\d{2})?\<close>\<close>
  "amount = seqs [plus digit, Star (Seq (ch CHR '','') (rep 3 3 digit)),
                  opt (Seq (ch CHR ''.'') (rep 2 2 digit))]"

definition rupee :: rx where
  "rupee = Chr [Unit 8377]"

definition pricePatterns :: "rx list" where
  "pricePatterns =
     [seqs [rupee, Star space, Group amount],
      seqs [lit ''Rs'', opt (ch CHR ''.''), Star space, Group amount],
      seqs [lit ''INR'', Star space, Group amount],
      seqs [Group amount, Star space, rupee]]"

definition priceRegex :: rx where
  "priceRegex =
     alts [seqs [rupee, Star space, amount],
           seqs [amount, Star space, rupee],
           seqs [lit ''Rs'', opt (ch CHR ''.''), Star space, amount]]"

definition quantityRegex :: rx where
  \<comment> \<open>\<open>/(\d+)\s*(?:x|pcs?|kg|gm?|ml|ltr?)\b/i\<close>\<close>
  "quantityRegex =
     seqs [Group (plus digit), Star space,
           alts [lit_i ''x'', Seq (lit_i ''pc'') (opt (ch_i CHR ''s'')), lit_i ''kg'',
                 Seq (ch_i CHR ''g'') (opt (ch_i CHR ''m'')), lit_i ''ml'',
                 Seq (lit_i ''lt'') (opt (ch_i CHR ''r''))],
           WordBoundary]"

definition leadingNumber :: rx where
  \<comment> \<open>\<open>/^\d+\.?\s*/\<close>\<close>
  "leadingNumber = seqs [LineStart, plus digit, opt (ch CHR ''.''), Star space]"

definition letters2 :: rx where
  \<comment> \<open>\<open>/[A-Za-z]{2,}/\<close>\<close>
  "letters2 = at_least 2 (Chr [Range 65 90, Range 97 122])"

definition totalsLabel :: rx where
  \<comment> \<open>\<open>/(?:total|subtotal|tax|gst|amount|discount):/i\<close>\<close>
  "totalsLabel =
     Seq (alts (map lit_i [''total'', ''subtotal'', ''tax'', ''gst'', ''amount'', ''discount'']))
         (ch CHR '':'')"

definition upperName :: rx where
  \<comment> \<open>\<open>/^[A-Z\s&]+$/\<close>\<close>
  "upperName = seqs [LineStart, plus (Chr [Range 65 90, Space, Unit 38]), LineEnd]"

definition addressShape :: rx where
  \<comment> \<open>\<open>/\d+.*(?:street|road|avenue|lane|block|plot|house|building)/i\<close>\<close>
  "addressShape =
     seqs [plus digit, Star (Chr [Dot]),
           alts (map lit_i [''street'', ''road'', ''avenue'', ''lane'', ''block'', ''plot'', ''house'',
                            ''building''])]"

definition code_unit_class :: rx where
  \<comment> \<open>\<open>[A-Z0-9\-]\<close> under the flag \<open>i\<close>\<close>
  "code_unit_class = Chr [Range 65 90, Range 97 122, Range 48 57, Unit 45]"

definition billNumberLabel :: rx where
  \<comment> \<open>\<open>/(?:bill|invoice|receipt|no\.?|#)\s*:?\s*([A-Z0-9\-]+)/i\<close>\<close>
  "billNumberLabel =
     seqs [alts [lit_i ''bill'', lit_i ''invoice'', lit_i ''receipt'',
                 Seq (lit_i ''no'') (opt (ch CHR ''.'')), ch CHR ''#''],
           Star space, opt (ch CHR '':''), Star space, Group (plus code_unit_class)]"

definition standaloneCode :: rx where
  \<comment> \<open>\<open>/^[A-Z0-9\-]{3,15}$/\<close>\<close>
  "standaloneCode = seqs [LineStart, rep 3 15 (Chr [Range 65 90, Range 48 57, Unit 45]), LineEnd]"

definition percentage :: rx where
  \<comment> \<open>\<open>/(\d+(?:\.\d+)?)\s*%/\<close>\<close>
  "percentage =
     seqs [Group (Seq (plus digit) (opt (Seq (ch CHR ''.'') (plus digit)))), Star space, ch CHR ''%'']"

subsection \<open>Lines\<close>

fun split_on :: "nat \<Rightarrow> jsstring \<Rightarrow> jsstring list" where
  "split_on d [] = [[]]"
| "split_on d (c # cs) =
     (if c = d then [] # split_on d cs
      else (case split_on d cs of [] \<Rightarrow> [[c]] | l # ls \<Rightarrow> (c # l) # ls))"

definition preprocessText :: "jsstring \<Rightarrow> jsstring list" where
  "preprocessText s =
     map (\<lambda>line. rx_replace_all (plus space) [32] line)
       (filter (\<lambda>line. length line > 0) (map trim (split_on 10 s)))"

definition some_keyword :: "string list \<Rightarrow> jsstring \<Rightarrow> bool" where
  \<comment> \<open>\<open>keywords.some(keyword => lowerLine.includes(keyword))\<close>\<close>
  "some_keyword keywords lowerLine = list_ex (\<lambda>keyword. js_includes lowerLine (js keyword)) keywords"

subsection \<open>Date, store and bill number\<close>

definition formatDate :: "Env \<Rightarrow> jsstring \<Rightarrow> jsstring" where
  "formatDate env dateString =
     (case date_parse env dateString of
        Some t \<Rightarrow> toISODate t
      | None \<Rightarrow> dateString)"

fun findDateInLine_from :: "Env \<Rightarrow> rx list \<Rightarrow> jsstring \<Rightarrow> jsstring option" where
  "findDateInLine_from env [] line = None"
| "findDateInLine_from env (pattern # rest) line =
     (case rx_matchAll pattern None line of
        [] \<Rightarrow> findDateInLine_from env rest line
      | m # ms \<Rightarrow> Some (formatDate env (m_text m)))"

definition findDateInLine :: "Env \<Rightarrow> jsstring \<Rightarrow> jsstring option" where
  "findDateInLine env line = findDateInLine_from env datePatterns line"

fun first_date :: "Env \<Rightarrow> (jsstring \<Rightarrow> bool) \<Rightarrow> jsstring list \<Rightarrow> jsstring option" where
  \<comment> \<open>the loop \<open>for (const line of lines)\<close> that returns the first date found in a line
      that passes the test; an empty string found is not returned\<close>
  "first_date env ok [] = None"
| "first_date env ok (line # rest) =
     (if ok line then
        (case findDateInLine env line of
           Some d \<Rightarrow> if d \<noteq> [] then Some d else first_date env ok rest
         | None \<Rightarrow> first_date env ok rest)
      else first_date env ok rest)"

definition extractDate :: "Env \<Rightarrow> jsstring list \<Rightarrow> jsstring" where
  "extractDate env lines =
     (case first_date env
             (\<lambda>line. some_keyword [''date'', ''dt'', ''dated'', ''bill date'', ''invoice date'']
                        (toLowerCase line)) lines of
        Some d \<Rightarrow> d
      | None \<Rightarrow> (case first_date env (\<lambda>line. True) lines of Some d \<Rightarrow> d | None \<Rightarrow> []))"

definition extractStoreName :: "jsstring list \<Rightarrow> jsstring" where
  "extractStoreName lines =
     (case find (\<lambda>line. length line > 5 \<and> length line < 50
                   \<and> (some_keyword [''store'', ''mart'', ''shop'', ''market'', ''retail'', ''supermarket'',
                                     ''grocery''] (toLowerCase line)
                      \<or> rx_test upperName line
                      \<or> js_includes line (js ''LTD'') \<or> js_includes line (js ''PVT'')))
             (take 3 lines) of
        Some line \<Rightarrow> line
      | None \<Rightarrow> (case lines of [] \<Rightarrow> [] | l # ls \<Rightarrow> if length l > 3 then l else []))"

definition extractStoreAddress :: "jsstring list \<Rightarrow> jsstring" where
  "extractStoreAddress lines =
     (case find (\<lambda>line. some_keyword [''address'', ''add'', ''location'', ''street'', ''road'', ''avenue'',
                                      ''pin'', ''pincode''] (toLowerCase line)) lines of
        Some line \<Rightarrow> line
      | None \<Rightarrow> (case find (\<lambda>line. rx_test addressShape line) lines of Some line \<Rightarrow> line | None \<Rightarrow> []))"

fun first_bill_number :: "jsstring list \<Rightarrow> jsstring option" where
  "first_bill_number [] = None"
| "first_bill_number (line # rest) =
     (if some_keyword [''bill'', ''invoice'', ''receipt'', ''no'', ''number'', ''#''] (toLowerCase line) then
        (case rx_search billNumberLabel None line of
           Some m \<Rightarrow> Some (group1 m)
         | None \<Rightarrow> first_bill_number rest)
      else first_bill_number rest)"

definition extractBillNumber :: "jsstring list \<Rightarrow> jsstring" where
  "extractBillNumber lines =
     (case first_bill_number lines of
        Some code \<Rightarrow> code
      | None \<Rightarrow>
          (case find (\<lambda>line. rx_test standaloneCode (trim line)) lines of
             Some line \<Rightarrow> trim line
           | None \<Rightarrow> []))"

subsection \<open>Items\<close>

fun first_price :: "rx list \<Rightarrow> jsstring \<Rightarrow> real option" where
  \<comment> \<open>the first pattern that matches decides; of its matches the last one is taken\<close>
  "first_price [] line = None"
| "first_price (pattern # rest) line =
     (case rx_matchAll pattern None line of
        [] \<Rightarrow> first_price rest line
      | m # ms \<Rightarrow>
          (let lastMatch = last (m # ms);
               priceStr = (if group1 lastMatch \<noteq> [] then group1 lastMatch else m_text lastMatch)
           in Some (parseFloat (filter (\<lambda>c. c \<noteq> 44) priceStr))))"

definition extractPriceFromLine :: "jsstring \<Rightarrow> real option" where
  "extractPriceFromLine line = first_price pricePatterns line"

definition looksLikeItemLine :: "jsstring \<Rightarrow> bool" where
  "looksLikeItemLine line =
     (let hasPrice = (extractPriceFromLine line \<noteq> None);
          hasText = rx_test letters2 line;
          isNotTotal = (\<not> rx_test totalsLabel line)
      in hasPrice \<and> hasText \<and> isNotTotal \<and> length line > 5)"

definition parseItemLine :: "jsstring \<Rightarrow> ParsedItem option" where
  \<comment> \<open>\<open>if (!price) return null\<close> leaves on no price and on a price of zero; nothing in the body
      can raise on a string, so the handler of the function is not reached\<close>
  "parseItemLine line =
     (case extractPriceFromLine line of
        None \<Rightarrow> None
      | Some linePrice \<Rightarrow>
          if linePrice = 0 then None
          else
            (let itemDescription = trim (rx_replace_all priceRegex [] line);
                 qtyMatch = rx_search quantityRegex None itemDescription;
                 qty = (case qtyMatch of None \<Rightarrow> 1 | Some m \<Rightarrow> parseInt (group1 m));
                 itemDescription =
                   (case qtyMatch of
                      None \<Rightarrow> itemDescription
                    | Some m \<Rightarrow> trim (str_replace_first (m_text m) [] itemDescription));
                 itemDescription =
                   trim (rx_replace_all (plus space) [32] (rx_replace_first leadingNumber [] itemDescription))
             in if length itemDescription < 2 then None
                else Some \<lparr>name = itemDescription,
                           quantity = real qty,
                           unitPrice = (if qty = 0 then PosInfinity
                                        else Finite (toFixed2 (linePrice / real qty))),
                           price = toFixed2 linePrice\<rparr>))"

fun section_bounds :: "jsstring list \<Rightarrow> nat \<Rightarrow> bool \<Rightarrow> int \<Rightarrow> nat \<Rightarrow> int \<times> nat" where
  \<comment> \<open>the first loop of \<open>extractItems\<close> from line \<open>i\<close> on; \<open>n\<close> is the number of lines; the
      result is \<open>itemStartIndex\<close> and \<open>itemEndIndex\<close>\<close>
  "section_bounds [] i inItemSection itemStartIndex n = (itemStartIndex, n)"
| "section_bounds (line # rest) i inItemSection itemStartIndex n =
     (let lowerLine = toLowerCase line;
          starts = (\<not> inItemSection
                    \<and> (some_keyword [''item'', ''product'', ''description'', ''===='', ''----'', ''qty'',
                                       ''quantity''] lowerLine
                       \<or> looksLikeItemLine line));
          inItemSection = (inItemSection \<or> starts);
          itemStartIndex = (if starts then int i else itemStartIndex)
      in if inItemSection
            \<and> some_keyword [''subtotal'', ''sub total'', ''total'', ''tax'', ''gst'', ''===='', ''----'',
                             ''discount'', ''amount''] lowerLine
            \<and> \<not> looksLikeItemLine line
         then (itemStartIndex, i)
         else section_bounds rest (i + 1) inItemSection itemStartIndex n)"

definition extractItems :: "jsstring list \<Rightarrow> ParsedItem list" where
  "extractItems lines =
     (case section_bounds lines 0 False (- 1) (length lines) of
        (itemStartIndex, itemEndIndex) \<Rightarrow>
          List.map_filter parseItemLine
            (map (\<lambda>i. lines ! i) [nat (max 0 itemStartIndex) ..< itemEndIndex]))"

subsection \<open>Totals\<close>

definition positive_price :: "jsstring \<Rightarrow> real option" where
  \<comment> \<open>the price of a line when \<open>price && price > 0\<close>\<close>
  "positive_price line =
     (case extractPriceFromLine line of
        None \<Rightarrow> None
      | Some p \<Rightarrow> if p \<noteq> 0 \<and> p > 0 then Some p else None)"

definition totals_of_line :: "'i Bill \<Rightarrow> jsstring \<Rightarrow> 'i Bill" where
  "totals_of_line bill line =
     (let lowerLine = toLowerCase line;
          b1 = (if some_keyword [''subtotal'', ''sub total'', ''sub-total'', ''amount''] lowerLine
                   \<and> \<not> js_includes lowerLine (js ''tax'') \<and> \<not> js_includes lowerLine (js ''total'')
                then (case positive_price line of Some p \<Rightarrow> bill\<lparr>subtotal := p\<rparr> | None \<Rightarrow> bill)
                else bill);
          b2 = (if some_keyword [''tax'', ''gst'', ''vat'', ''cgst'', ''sgst'', ''igst''] lowerLine
                then (case extractPriceFromLine line of
                        None \<Rightarrow> b1
                      | Some p \<Rightarrow>
                          if p \<noteq> 0 \<and> p \<ge> 0 then
                            (let b = b1\<lparr>tax := tax b1 + p\<rparr>
                             in case rx_search percentage None line of
                                  None \<Rightarrow> b
                                | Some rateMatch \<Rightarrow>
                                    b\<lparr>taxRate := max (taxRate b) (parseFloat (group1 rateMatch))\<rparr>)
                          else b1)
                else b1);
          b3 = (if some_keyword [''discount'', ''off'', ''reduction''] lowerLine
                then (case positive_price line of Some p \<Rightarrow> b2\<lparr>discount := p\<rparr> | None \<Rightarrow> b2)
                else b2);
          b4 = (if some_keyword [''total'', ''grand total'', ''final total'', ''net total'', ''amount payable'']
                     lowerLine
                   \<and> \<not> js_includes lowerLine (js ''sub'')
                then (case positive_price line of Some p \<Rightarrow> b3\<lparr>total := p\<rparr> | None \<Rightarrow> b3)
                else b3)
      in b4)"

definition extractFinancialTotals :: "jsstring list \<Rightarrow> 'i Bill \<Rightarrow> 'i Bill" where
  "extractFinancialTotals lines bill = foldl totals_of_line bill lines"

definition calculateDerivedValues :: "'u Item Bill \<Rightarrow> 'u Item Bill" where
  "calculateDerivedValues bill =
     (let b1 = (if subtotal bill = 0 \<and> length (items bill) > 0
                then bill\<lparr>subtotal := foldl (\<lambda>sum item. sum + price item) 0 (items bill)\<rparr>
                else bill);
          b2 = (if taxRate b1 = 0 \<and> subtotal b1 > 0 \<and> tax b1 > 0
                then b1\<lparr>taxRate := (tax b1 / subtotal b1) * 100\<rparr>
                else b1);
          b3 = (if total b2 = 0 then b2\<lparr>total := subtotal b2 + tax b2 - discount b2\<rparr> else b2)
      in b3\<lparr>subtotal := toFixed2 (subtotal b3),
            tax := toFixed2 (tax b3),
            taxRate := toFixed2 (taxRate b3),
            discount := toFixed2 (discount b3),
            total := toFixed2 (total b3)\<rparr>)"

definition detectCurrency :: "jsstring \<Rightarrow> jsstring" where
  "detectCurrency s =
     (if js_includes s [8377] \<or> js_includes s (js ''Rs'') \<or> js_includes s (js ''INR'') then [8377]
      else if js_includes s (js ''$'') then js ''$''
      else if js_includes s [8364] then [8364]
      else if js_includes s [163] then [163]
      else [8377])"

subsection \<open>The main parsing function\<close>

text \<open>
  What the caller hands over: a string, or a value that is no string, on which the call
  \<open>text.split\<close> of \<open>preprocessText\<close> raises. The handler of \<open>parseBillData\<close> raises again,
  an \<open>Error\<close> whose message starts with \<open>Bill parsing failed\<close>.
\<close>

datatype ocr_input = Text jsstring | Null | Undefined

datatype parse_failure = BillParsingFailed

definition parseBillData :: "Env \<Rightarrow> ocr_input \<Rightarrow> parse_failure + ParsedReceipt" where
  "parseBillData env ocrText =
     (case ocrText of
        Text rawInput \<Rightarrow>
          (let lines = preprocessText rawInput;
               bill =
                 \<lparr>date = extractDate env lines,
                  storeName = extractStoreName lines,
                  storeAddress = extractStoreAddress lines,
                  billNumber = extractBillNumber lines,
                  items = extractItems lines,
                  subtotal = 0, tax = 0, taxRate = 0, discount = 0, total = 0,
                  currency = detectCurrency rawInput,
                  rawText = rawInput\<rparr>
           in Inr (calculateDerivedValues (extractFinancialTotals lines bill)))
      | Null \<Rightarrow> Inl BillParsingFailed
      | Undefined \<Rightarrow> Inl BillParsingFailed)"

subsection \<open>From the parser to the validator\<close>

definition finite_item :: "ParsedItem \<Rightarrow> LineItem option" where
  "finite_item item =
     (case unitPrice item of
        Finite u \<Rightarrow> Some \<lparr>name = name item, quantity = quantity item, unitPrice = u, price = price item\<rparr>
      | PosInfinity \<Rightarrow> None)"

fun finite_items :: "ParsedItem list \<Rightarrow> LineItem list option" where
  "finite_items [] = Some []"
| "finite_items (item # rest) =
     (case (finite_item item, finite_items rest) of
        (Some x, Some xs) \<Rightarrow> Some (x # xs)
      | _ \<Rightarrow> None)"

definition to_receipt :: "ParsedReceipt \<Rightarrow> Receipt option" where
  \<comment> \<open>the same receipt, when every unit price is finite\<close>
  "to_receipt p =
     (case finite_items (items p) of
        None \<Rightarrow> None
      | Some its \<Rightarrow>
          Some \<lparr>date = date p, storeName = storeName p, storeAddress = storeAddress p,
                billNumber = billNumber p, items = its, subtotal = subtotal p, tax = tax p,
                taxRate = taxRate p, discount = discount p, total = total p,
                currency = currency p, rawText = rawText p\<rparr>)"


section \<open>Basic facts about the state\<close>

lemma seq_Normal [simp]: "seq (Normal s) f = f s"
  by (simp add: seq_def)

lemma seq_Throw [simp]: "seq (Throw e s) f = Throw e s"
  by (simp add: seq_def)

lemma try_catch_Normal [simp]: "try_catch (Normal s) h = Normal s"
  by (simp add: try_catch_def)

lemma try_catch_Throw [simp]: "try_catch (Throw e s) h = h e s"
  by (simp add: try_catch_def)

lemma state_of_simps [simp]: "state_of (Normal s) = s" "state_of (Throw e s) = s"
  by (simp_all add: state_of_def)

lemma Let_weak_cong: "a = b \<Longrightarrow> Let a f = Let b f"
  by simp

lemma seq_weak_cong: "r = r' \<Longrightarrow> seq r f = seq r' f"
  by simp

lemma try_catch_weak_cong: "r = r' \<Longrightarrow> try_catch r h = try_catch r' h"
  by simp

lemma push_error_simps [simp]:
  "billData (push_error e s) = billData s"
  "errors (validation (push_error e s)) = errors (validation s) @ [e]"
  "warnings (validation (push_error e s)) = warnings (validation s)"
  "algorithmResults (validation (push_error e s)) = algorithmResults (validation s)"
  by (simp_all add: push_error_def)

lemma push_warning_simps [simp]:
  "billData (push_warning w s) = billData s"
  "errors (validation (push_warning w s)) = errors (validation s)"
  "warnings (validation (push_warning w s)) = warnings (validation s) @ [w]"
  "algorithmResults (validation (push_warning w s)) = algorithmResults (validation s)"
  by (simp_all add: push_warning_def)

lemma set_result_simps [simp]:
  "billData (set_result c s) = billData s"
  "errors (validation (set_result c s)) = errors (validation s)"
  "warnings (validation (set_result c s)) = warnings (validation s)"
  "algorithmResults (validation (set_result c s)) = (algorithmResults (validation s))(c \<mapsto> True)"
  by (simp_all add: set_result_def)

lemma issue_simps [simp]:
  "itype (issue t sev f) = t" "severity (issue t sev f) = sev" "field (issue t sev f) = f"
  by (simp_all add: issue_def)

lemma issue_eq_iff [simp]: "issue t sev f = issue t' sev' f' \<longleftrightarrow> t = t' \<and> sev = sev' \<and> f = f'"
  by (auto simp: issue_def)

subsection \<open>Normal forms of the checks\<close>

definition item_errors :: "nat \<Rightarrow> LineItem list \<Rightarrow> ValidationIssue list" where
  "item_errors index its =
     map (\<lambda>i. issue MATH_ERROR Medium (Some (F_item_price (index + i))))
       (filter (\<lambda>i. abs (quantity (its ! i) * unitPrice (its ! i) - price (its ! i)) > 0.01)
          [0 ..< length its])"

lemma item_errors_Nil [simp]: "item_errors index [] = []"
  by (simp add: item_errors_def)

lemma item_errors_Cons:
  "item_errors index (item # rest) =
     (if abs (quantity item * unitPrice item - price item) > 0.01
      then [issue MATH_ERROR Medium (Some (F_item_price index))] else [])
     @ item_errors (index + 1) rest"
proof -
  have u: "[0 ..< length (item # rest)] = 0 # map Suc [0 ..< length rest]"
    by (simp add: upt_conv_Cons map_Suc_upt del: upt_Suc)
  show ?thesis
    unfolding item_errors_def u
    by (simp add: filter_map comp_def)
qed

lemma check_item_prices_frame:
  "billData (check_item_prices index its s) = billData s
   \<and> warnings (validation (check_item_prices index its s)) = warnings (validation s)
   \<and> algorithmResults (validation (check_item_prices index its s)) = algorithmResults (validation s)
   \<and> errors (validation (check_item_prices index its s)) = errors (validation s) @ item_errors index its"
  by (induction its arbitrary: index s) (simp_all add: item_errors_Cons)


subsection \<open>What a check adds to the state\<close>

definition apply_effect ::
  "ValidationIssue list \<Rightarrow> ValidationIssue list \<Rightarrow> check list \<Rightarrow> vstate \<Rightarrow> vstate" where
  "apply_effect es ws cs s =
     s\<lparr>validation := (validation s)
         \<lparr>errors := errors (validation s) @ es,
          warnings := warnings (validation s) @ ws,
          algorithmResults := foldl (\<lambda>m c. m(c \<mapsto> True)) (algorithmResults (validation s)) cs\<rparr>\<rparr>"

lemma apply_effect_simps [simp]:
  "billData (apply_effect es ws cs s) = billData s"
  "errors (validation (apply_effect es ws cs s)) = errors (validation s) @ es"
  "warnings (validation (apply_effect es ws cs s)) = warnings (validation s) @ ws"
  "algorithmResults (validation (apply_effect es ws cs s))
     = foldl (\<lambda>m c. m(c \<mapsto> True)) (algorithmResults (validation s)) cs"
  by (simp_all add: apply_effect_def)

lemma apply_effect_empty: "apply_effect [] [] [] s = s"
  by (simp add: apply_effect_def)

lemma apply_effect_comp:
  "apply_effect es' ws' cs' (apply_effect es ws cs s) = apply_effect (es @ es') (ws @ ws') (cs @ cs') s"
  by (simp add: apply_effect_def)

lemma push_error_effect: "push_error e s = apply_effect [e] [] [] s"
  by (simp add: apply_effect_def push_error_def)

lemma push_warning_effect: "push_warning w s = apply_effect [] [w] [] s"
  by (simp add: apply_effect_def push_warning_def)

lemma set_result_effect: "set_result c s = apply_effect [] [] [c] s"
  by (simp add: apply_effect_def set_result_def)

lemma check_item_prices_effect:
  "check_item_prices index its s = apply_effect (item_errors index its) [] [] s"
proof (induction its arbitrary: index s)
  case Nil
  show ?case by (simp add: apply_effect_empty)
next
  case (Cons item rest)
  show ?case
    by (simp add: Cons.IH item_errors_Cons push_error_effect apply_effect_comp)
qed

definition subtotal_mismatch :: "Receipt \<Rightarrow> bool" where
  "subtotal_mismatch b = (abs (calculatedSubtotal (items b) - subtotal b) > 0.01)"

definition math_errors :: "Receipt \<Rightarrow> ValidationIssue list" where
  "math_errors b =
     (if subtotal_mismatch b then [issue MATH_ERROR High (Some F_subtotal)] else [])
     @ item_errors 0 (items b)"

definition math_flags :: "Receipt \<Rightarrow> check list" where
  "math_flags b = (if subtotal_mismatch b then [] else [mathVerification])"

lemma validateMathematicalAccuracy_effect:
  "validateMathematicalAccuracy s
     = Normal (apply_effect (math_errors (billData s)) [] (math_flags (billData s)) s)"
  by (simp add: validateMathematicalAccuracy_def Let_def check_item_prices_effect push_error_effect
      set_result_effect apply_effect_comp math_errors_def math_flags_def subtotal_mismatch_def)

definition amount_errors :: "real \<Rightarrow> Receipt \<Rightarrow> ValidationIssue list" where
  "amount_errors closestValidRate b =
     (if abs ((subtotal b * closestValidRate) / 100 - tax b) > 0.01
      then [issue TAX_ERROR Medium (Some F_tax)] else [])"

definition rate_mismatch :: "Receipt \<Rightarrow> bool" where
  "rate_mismatch b =
     (abs ((tax b / subtotal b) * 100 - findClosestTaxRate ((tax b / subtotal b) * 100)) > 0.5)"

definition tax_errors :: "Receipt \<Rightarrow> ValidationIssue list" where
  "tax_errors b =
     (if tax b = 0 then []
      else if subtotal b = 0 then issue TAX_ERROR Medium (Some F_tax) # amount_errors 0 b
      else (if rate_mismatch b then [issue TAX_ERROR Medium (Some F_tax)] else [])
           @ amount_errors (findClosestTaxRate ((tax b / subtotal b) * 100)) b)"

definition tax_warnings :: "Receipt \<Rightarrow> ValidationIssue list" where
  "tax_warnings b = (if tax b = 0 then [issue TAX_ERROR Low None] else [])"

definition tax_flags :: "Receipt \<Rightarrow> check list" where
  "tax_flags b =
     (if tax b = 0 then [taxValidation]
      else if subtotal b = 0 \<or> rate_mismatch b then [] else [taxValidation])"

lemma hd_indianTaxRates: "hd indianTaxRates = 0"
  by (simp add: indianTaxRates_def)

lemma tax_amount_check_effect:
  "tax_amount_check r s = apply_effect (amount_errors r (billData s)) [] [] s"
  by (simp add: tax_amount_check_def amount_errors_def Let_def push_error_effect apply_effect_empty)

lemma validateTaxCalculations_effect:
  "validateTaxCalculations s
     = Normal (apply_effect (tax_errors (billData s)) (tax_warnings (billData s)) (tax_flags (billData s)) s)"
  by (simp add: validateTaxCalculations_def Let_def tax_amount_check_effect push_error_effect
      push_warning_effect set_result_effect apply_effect_comp tax_errors_def tax_warnings_def
      tax_flags_def rate_mismatch_def hd_indianTaxRates)

definition total_mismatch :: "Receipt \<Rightarrow> bool" where
  "total_mismatch b = (abs (subtotal b + tax b - discount b - total b) > 0.01)"

definition total_errors :: "Receipt \<Rightarrow> ValidationIssue list" where
  "total_errors b =
     (if total_mismatch b then [issue TOTAL_ERROR High (Some F_total)] else [])
     @ (if total b < 0 then [issue TOTAL_ERROR High (Some F_total)] else [])"

definition total_warnings :: "Receipt \<Rightarrow> ValidationIssue list" where
  "total_warnings b = (if total b > 100000 then [issue TOTAL_ERROR Low (Some F_total)] else [])"

definition total_flags :: "Receipt \<Rightarrow> check list" where
  "total_flags b = (if total_mismatch b then [] else [totalCheck])"

lemma validateTotalAmount_effect:
  "validateTotalAmount s
     = Normal (apply_effect (total_errors (billData s)) (total_warnings (billData s))
                 (total_flags (billData s)) s)"
  by (simp add: validateTotalAmount_def Let_def push_error_effect push_warning_effect
      set_result_effect apply_effect_comp total_errors_def total_warnings_def total_flags_def
      total_mismatch_def)

definition future_date :: "Env \<Rightarrow> Receipt \<Rightarrow> bool" where
  "future_date env b =
     (date b \<noteq> [] \<and>
      (case date_parse env (date b) of
         None \<Rightarrow> False
       | Some billDate \<Rightarrow> daysDifference env billDate < - 1))"

definition date_errors :: "Env \<Rightarrow> Receipt \<Rightarrow> ValidationIssue list" where
  "date_errors env b = (if future_date env b then [issue DATE_ERROR High (Some F_date)] else [])"

definition date_warnings :: "Env \<Rightarrow> Receipt \<Rightarrow> ValidationIssue list" where
  "date_warnings env b =
     (if date b = [] then [issue DATE_ERROR Low (Some F_date)]
      else
        (case date_parse env (date b) of
           None \<Rightarrow> []
         | Some billDate \<Rightarrow>
             (if \<not> daysDifference env billDate < - 1 \<and> daysDifference env billDate > maxBillAge
              then [issue OLD_DATE Low (Some F_date)] else [])
             @ (if getDay env billDate = 0 \<and> total b > 1000 then [issue DATE_ERROR Low None] else [])))"

lemma validateDateLogic_effect:
  "validateDateLogic env s
     = Normal (apply_effect (date_errors env (billData s)) (date_warnings env (billData s))
                 [dateValidation] s)"
  by (simp add: validateDateLogic_def Let_def push_error_effect push_warning_effect
      set_result_effect apply_effect_comp date_errors_def date_warnings_def future_date_def
      split: option.split)


subsection \<open>Steps that can only add warnings\<close>

definition only_warns :: "(vstate \<Rightarrow> vstate) \<Rightarrow> bool" where
  "only_warns f = (\<forall>s. \<exists>ws. f s = apply_effect [] ws [] s)"

lemma only_warnsD: "only_warns f \<Longrightarrow> \<exists>ws. f s = apply_effect [] ws [] s"
  by (simp add: only_warns_def)

lemma ex_effect_if: "\<exists>ws. (if c then push_warning w s else s) = apply_effect [] ws [] s"
proof (cases c)
  case True
  then show ?thesis by (auto simp: push_warning_effect)
next
  case False
  then have "(if c then push_warning w s else s) = apply_effect [] [] [] s"
    by (simp add: apply_effect_empty)
  then show ?thesis by blast
qed

lemma only_warns_comp:
  assumes "only_warns f" and "only_warns g"
  shows "only_warns (\<lambda>s. g (f s))"
  unfolding only_warns_def
proof
  fix s
  obtain ws where f: "f s = apply_effect [] ws [] s"
    using assms(1) only_warnsD by blast
  obtain ws' where g: "g (f s) = apply_effect [] ws' [] (f s)"
    using assms(2) only_warnsD by blast
  have "g (f s) = apply_effect [] ws' [] (apply_effect [] ws [] s)"
    using g by (simp only: f)
  then have "g (f s) = apply_effect [] (ws @ ws') [] s"
    by (simp add: apply_effect_comp)
  then show "\<exists>ws. g (f s) = apply_effect [] ws [] s" by blast
qed

lemma detectDuplicateItems_warns: "only_warns detectDuplicateItems"
  unfolding only_warns_def detectDuplicateItems_def Let_def
  by (intro allI ex_effect_if)

lemma detectPriceOutliers_warns: "only_warns detectPriceOutliers"
  unfolding only_warns_def
proof
  fix s
  show "\<exists>ws. detectPriceOutliers s = apply_effect [] ws [] s"
  proof (cases "length (items (billData s)) < 3")
    case True
    then have "detectPriceOutliers s = apply_effect [] [] [] s"
      by (simp add: detectPriceOutliers_def apply_effect_empty)
    then show ?thesis by blast
  next
    case False
    then show ?thesis
      unfolding detectPriceOutliers_def Let_def
      by (simp only: if_False) (rule ex_effect_if)
  qed
qed

lemma analyzeQuantityPatterns_warns: "only_warns analyzeQuantityPatterns"
  unfolding only_warns_def analyzeQuantityPatterns_def Let_def
  by (intro allI ex_effect_if)

lemma detectSuspiciousRounding_warns: "only_warns detectSuspiciousRounding"
proof -
  let ?f = "\<lambda>s. if length (filter (\<lambda>item. is_multiple_of (price item) 1) (items (billData s)))
                     = length (items (billData s)) \<and> length (items (billData s)) > 3
                 then push_warning (issue SUSPICIOUS_PATTERN Low None) s else s"
  let ?g = "\<lambda>s. if is_multiple_of (total (billData s)) 10 \<and> total (billData s) > 100
                 then push_warning (issue SUSPICIOUS_PATTERN Low None) s else s"
  have f: "only_warns ?f" unfolding only_warns_def by (intro allI ex_effect_if)
  have g: "only_warns ?g" unfolding only_warns_def by (intro allI ex_effect_if)
  have "detectSuspiciousRounding = (\<lambda>s. ?g (?f s))"
    by (rule ext) (simp add: detectSuspiciousRounding_def Let_def)
  then show ?thesis using only_warns_comp[OF f g] by simp
qed

lemma analyzePatterns_effect:
  "\<exists>ws. analyzePatterns s = Normal (apply_effect [] ws [patternAnalysis] s)"
proof -
  have a: "only_warns (\<lambda>s. detectPriceOutliers (detectDuplicateItems s))"
    by (rule only_warns_comp[OF detectDuplicateItems_warns detectPriceOutliers_warns])
  have b: "only_warns (\<lambda>s. analyzeQuantityPatterns (detectPriceOutliers (detectDuplicateItems s)))"
    by (rule only_warns_comp[OF a analyzeQuantityPatterns_warns])
  have "only_warns (\<lambda>s. detectSuspiciousRounding (analyzeQuantityPatterns
          (detectPriceOutliers (detectDuplicateItems s))))"
    by (rule only_warns_comp[OF b detectSuspiciousRounding_warns])
  then obtain ws where
    "detectSuspiciousRounding (analyzeQuantityPatterns (detectPriceOutliers (detectDuplicateItems s)))
       = apply_effect [] ws [] s"
    using only_warnsD by blast
  then have "analyzePatterns s = Normal (apply_effect [] ws [patternAnalysis] s)"
    by (simp add: analyzePatterns_def set_result_effect apply_effect_comp)
  then show ?thesis by blast
qed


subsection \<open>Business logic and anomaly detection\<close>

definition raises :: "Receipt \<Rightarrow> bool" where
  "raises b = list_ex (\<lambda>item. inherited_key (toLowerCase (name item))) (items b)"

lemma group_items_Inl:
  "list_ex (\<lambda>item. inherited_key (toLowerCase (name item))) its \<Longrightarrow> group_items its g = Inl TypeError"
  by (induction its g rule: group_items.induct) (auto simp: Let_def)

lemma group_items_Inr:
  "\<not> list_ex (\<lambda>item. inherited_key (toLowerCase (name item))) its \<Longrightarrow> \<exists>g'. group_items its g = Inr g'"
  by (induction its g rule: group_items.induct) (auto simp: Let_def)

lemma check_groups_warns: "\<exists>ws. check_groups g s = apply_effect [] ws [] s"
proof (induction g arbitrary: s)
  case Nil
  have "check_groups [] s = apply_effect [] [] [] s" by (simp add: apply_effect_empty)
  then show ?case by blast
next
  case (Cons p rest)
  obtain nm grp where p: "p = (nm, grp)" by (cases p)
  let ?s1 = "if length grp > 1 \<and> length (remdups (map unitPrice grp)) > 1
             then push_warning (issue PRICE_OUTLIER Medium None) s else s"
  obtain ws where a: "?s1 = apply_effect [] ws [] s"
    using ex_effect_if by blast
  obtain ws' where b: "check_groups rest ?s1 = apply_effect [] ws' [] ?s1"
    using Cons.IH by blast
  have "check_groups (p # rest) s = apply_effect [] ws' [] (apply_effect [] ws [] s)"
    using b by (simp only: p check_groups.simps a)
  then have "check_groups (p # rest) s = apply_effect [] (ws @ ws') [] s"
    by (simp add: apply_effect_comp)
  then show ?case by blast
qed

definition business_errors :: "Receipt \<Rightarrow> ValidationIssue list" where
  "business_errors b = (if total b < 1 then [issue TOTAL_ERROR High None] else [])"

lemma validateItemCombinations_warns: "\<exists>ws. validateItemCombinations s = apply_effect [] ws [] s"
  unfolding validateItemCombinations_def Let_def by (rule ex_effect_if)

lemma validateBusinessLogic_effect:
  "\<exists>ws. validateBusinessLogic s
     = (if raises (billData s) then Throw TypeError else Normal)
         (apply_effect (business_errors (billData s)) ws [] s)"
proof -
  let ?s1 = "if total (billData s) < 1 then push_error (issue TOTAL_ERROR High None) s else s"
  have s1: "?s1 = apply_effect (business_errors (billData s)) [] [] s"
    by (simp add: business_errors_def push_error_effect apply_effect_empty)
  obtain ws where c: "validateItemCombinations ?s1 = apply_effect [] ws [] ?s1"
    using validateItemCombinations_warns by blast
  let ?s2 = "apply_effect (business_errors (billData s)) ws [] s"
  have s2: "validateItemCombinations ?s1 = ?s2"
    using c by (simp add: s1 apply_effect_comp)
  have vb: "validateBusinessLogic s = validatePricingConsistency ?s2"
    using s2 by (simp add: validateBusinessLogic_def Let_def)
  show ?thesis
  proof (cases "raises (billData s)")
    case True
    then have "group_items (items (billData ?s2)) [] = Inl TypeError"
      by (simp add: raises_def group_items_Inl)
    then have "validatePricingConsistency ?s2 = Throw TypeError ?s2"
      by (simp add: validatePricingConsistency_def)
    then show ?thesis using True vb by auto
  next
    case False
    then obtain g where "group_items (items (billData ?s2)) [] = Inr g"
      using group_items_Inr[of "items (billData s)" "[]"] by (auto simp: raises_def)
    then have n: "validatePricingConsistency ?s2 = Normal (check_groups g ?s2)"
      by (simp add: validatePricingConsistency_def)
    obtain ws' where "check_groups g ?s2 = apply_effect [] ws' [] ?s2"
      using check_groups_warns by blast
    then have "validatePricingConsistency ?s2
                 = Normal (apply_effect (business_errors (billData s)) (ws @ ws') [] s)"
      using n by (simp add: apply_effect_comp)
    then show ?thesis using False vb by auto
  qed
qed

lemma checkBenfordsLaw_cases:
  "checkBenfordsLaw s = Throw TypeError s \<or> (\<exists>ws. checkBenfordsLaw s = Normal (apply_effect [] ws [] s))"
proof -
  have e: "s = apply_effect [] [] [] s" by (simp add: apply_effect_empty)
  have n: "\<exists>ws. Normal s = Normal (apply_effect [] ws [] s)" using e by metis
  have w: "\<exists>ws. Normal (push_warning w s) = Normal (apply_effect [] ws [] s)" for w
    by (metis push_warning_effect)
  show ?thesis
    unfolding checkBenfordsLaw_def Let_def
    using n w by (auto split: list.split)
qed

lemma checkTimingAnomalies_warns: "\<exists>ws. checkTimingAnomalies env s = apply_effect [] ws [] s"
proof -
  have e: "\<exists>ws. s = apply_effect [] ws [] s" by (metis apply_effect_empty)
  show ?thesis
    unfolding checkTimingAnomalies_def Let_def
    using e ex_effect_if by (auto split: option.split)
qed

lemma detectAnomalies_effect: "\<exists>ws. detectAnomalies env s = Normal (apply_effect [] ws [] s)"
proof -
  consider (t) "checkBenfordsLaw s = Throw TypeError s"
    | (n) ws where "checkBenfordsLaw s = Normal (apply_effect [] ws [] s)"
    using checkBenfordsLaw_cases by blast
  then show ?thesis
  proof cases
    case t
    then have "detectAnomalies env s = Normal (apply_effect [] [] [] s)"
      by (simp add: detectAnomalies_def apply_effect_empty)
    then show ?thesis by blast
  next
    case n
    obtain ws' where "checkTimingAnomalies env (apply_effect [] ws [] s)
                        = apply_effect [] ws' [] (apply_effect [] ws [] s)"
      using checkTimingAnomalies_warns by blast
    then have "detectAnomalies env s = Normal (apply_effect [] (ws @ ws') [] s)"
      using n by (simp add: detectAnomalies_def apply_effect_comp)
    then show ?thesis by blast
  qed
qed


subsection \<open>The whole run\<close>

definition all_errors :: "Env \<Rightarrow> Receipt \<Rightarrow> ValidationIssue list" where
  "all_errors env b =
     math_errors b @ tax_errors b @ total_errors b @ date_errors env b @ business_errors b"

definition all_flags :: "Receipt \<Rightarrow> check list" where
  "all_flags b = math_flags b @ tax_flags b @ total_flags b @ [dateValidation, patternAnalysis]"

lemma run_checks_effect:
  "\<exists>ws. run_checks env s
     = (if raises (billData s) then Throw TypeError else Normal)
         (apply_effect (all_errors env (billData s)) ws (all_flags (billData s)) s)"
proof -
  let ?b = "billData s"
  let ?s4 = "apply_effect (math_errors ?b @ tax_errors ?b @ total_errors ?b @ date_errors env ?b)
               (tax_warnings ?b @ total_warnings ?b @ date_warnings env ?b)
               (math_flags ?b @ tax_flags ?b @ total_flags ?b @ [dateValidation]) s"
  have r4: "run_checks env s
              = seq (analyzePatterns ?s4) (\<lambda>s5. seq (validateBusinessLogic s5) (detectAnomalies env))"
    by (simp add: run_checks_def validateMathematicalAccuracy_effect validateTaxCalculations_effect
        validateTotalAmount_effect validateDateLogic_effect apply_effect_comp)
  obtain w5 where p: "analyzePatterns ?s4 = Normal (apply_effect [] w5 [patternAnalysis] ?s4)"
    using analyzePatterns_effect by blast
  let ?s5 = "apply_effect [] w5 [patternAnalysis] ?s4"
  have r5: "run_checks env s = seq (validateBusinessLogic ?s5) (detectAnomalies env)"
    by (simp only: r4 p seq_Normal)
  obtain w6 where b: "validateBusinessLogic ?s5
      = (if raises (billData ?s5) then Throw TypeError else Normal)
          (apply_effect (business_errors (billData ?s5)) w6 [] ?s5)"
    using validateBusinessLogic_effect by blast
  let ?s6 = "apply_effect (business_errors ?b) w6 [] ?s5"
  have s6: "?s6 = apply_effect (all_errors env ?b)
                    (tax_warnings ?b @ total_warnings ?b @ date_warnings env ?b @ w5 @ w6)
                    (all_flags ?b) s"
    by (simp add: apply_effect_comp all_errors_def all_flags_def)
  show ?thesis
  proof (cases "raises ?b")
    case True
    then have "run_checks env s = Throw TypeError ?s6"
      using b by (simp add: r5)
    then show ?thesis using True s6 by auto
  next
    case False
    then have r6: "run_checks env s = detectAnomalies env ?s6"
      using b by (simp add: r5)
    obtain w7 where d: "detectAnomalies env ?s6 = Normal (apply_effect [] w7 [] ?s6)"
      using detectAnomalies_effect by blast
    have "apply_effect [] w7 [] ?s6 = apply_effect (all_errors env ?b)
        ((tax_warnings ?b @ total_warnings ?b @ date_warnings env ?b @ w5 @ w6) @ w7) (all_flags ?b) s"
      by (subst s6) (simp add: apply_effect_comp)
    then have "run_checks env s = Normal (apply_effect (all_errors env ?b)
        ((tax_warnings ?b @ total_warnings ?b @ date_warnings env ?b @ w5 @ w6) @ w7) (all_flags ?b) s)"
      using r6 d by simp
    then show ?thesis using False by auto
  qed
qed

definition deductions :: "Env \<Rightarrow> ValidationIssue list \<Rightarrow> ValidationIssue list \<Rightarrow> int" where
  "deductions env es ws =
     sum_list (map (\<lambda>e. error_deduction (severity e)) es)
     + sum_list (map (\<lambda>w. warning_deduction env (severity w)) ws)"

lemma foldl_minus: "foldl (\<lambda>score x. score - f x) (a :: int) xs = a - sum_list (map f xs)"
  by (induction xs arbitrary: a) simp_all

lemma calculateConfidenceScore_eq:
  "calculateConfidenceScore env v = max 0 (100 - deductions env (errors v) (warnings v))"
  by (simp add: calculateConfidenceScore_def Let_def foldl_minus deductions_def)

definition results_of :: "check list \<Rightarrow> (check \<rightharpoonup> bool)" where
  "results_of cs = foldl (\<lambda>m c. m(c \<mapsto> True)) (algorithmResults initial_validation) cs"

lemma validateBill_run_raises:
  "raises b \<Longrightarrow> validateBill_run env b = Normal \<lparr>billData = b, validation = failure_result\<rparr>"
proof -
  assume r: "raises b"
  let ?s0 = "\<lparr>billData = b, validation = initial_validation\<rparr>"
  obtain ws where "run_checks env ?s0
      = (if raises (billData ?s0) then Throw TypeError else Normal)
          (apply_effect (all_errors env (billData ?s0)) ws (all_flags (billData ?s0)) ?s0)"
    using run_checks_effect by blast
  then have "run_checks env ?s0 = Throw TypeError (apply_effect (all_errors env b) ws (all_flags b) ?s0)"
    using r by simp
  then show ?thesis
    by (simp add: validateBill_run_def apply_effect_def)
qed

lemma validateBill_run_normal:
  "\<not> raises b \<Longrightarrow>
   \<exists>ws. validateBill_run env b = Normal
     \<lparr>billData = b,
      validation = \<lparr>isValid = (all_errors env b = []), errors = all_errors env b, warnings = ws,
                    confidenceScore = max 0 (100 - deductions env (all_errors env b) ws),
                    algorithmResults = results_of (all_flags b)\<rparr>\<rparr>"
proof -
  assume r: "\<not> raises b"
  let ?s0 = "\<lparr>billData = b, validation = initial_validation\<rparr>"
  obtain ws where "run_checks env ?s0
      = (if raises (billData ?s0) then Throw TypeError else Normal)
          (apply_effect (all_errors env (billData ?s0)) ws (all_flags (billData ?s0)) ?s0)"
    using run_checks_effect by blast
  then have n: "run_checks env ?s0 = Normal (apply_effect (all_errors env b) ws (all_flags b) ?s0)"
    using r by simp
  have "validateBill_run env b = Normal
     \<lparr>billData = b,
      validation = \<lparr>isValid = (all_errors env b = []), errors = all_errors env b, warnings = ws,
                    confidenceScore = max 0 (100 - deductions env (all_errors env b) ws),
                    algorithmResults = results_of (all_flags b)\<rparr>\<rparr>"
    unfolding validateBill_run_def n seq_Normal try_catch_Normal
    by (simp add: finish_def Let_def calculateConfidenceScore_eq apply_effect_def
        results_of_def initial_validation_def)
  then show ?thesis by blast
qed

lemma validateBill_raises: "raises b \<Longrightarrow> validateBill env b = failure_result"
  by (simp add: validateBill_def validateBill_run_raises)

lemma validateBill_normal:
  "\<not> raises b \<Longrightarrow>
   \<exists>ws. validateBill env b =
     \<lparr>isValid = (all_errors env b = []), errors = all_errors env b, warnings = ws,
      confidenceScore = max 0 (100 - deductions env (all_errors env b) ws),
      algorithmResults = results_of (all_flags b)\<rparr>"
proof -
  assume "\<not> raises b"
  then obtain ws where "validateBill_run env b = Normal
     \<lparr>billData = b,
      validation = \<lparr>isValid = (all_errors env b = []), errors = all_errors env b, warnings = ws,
                    confidenceScore = max 0 (100 - deductions env (all_errors env b) ws),
                    algorithmResults = results_of (all_flags b)\<rparr>\<rparr>"
    using validateBill_run_normal by blast
  then show ?thesis by (simp add: validateBill_def)
qed

lemma run_checks_raises_iff:
  "(\<exists>e s'. run_checks env s = Throw e s') \<longleftrightarrow> raises (billData s)"
proof -
  obtain ws where "run_checks env s
      = (if raises (billData s) then Throw TypeError else Normal)
          (apply_effect (all_errors env (billData s)) ws (all_flags (billData s)) s)"
    using run_checks_effect by blast
  then show ?thesis by (cases "raises (billData s)") auto
qed


section \<open>Worked inputs\<close>

definition one_item_receipt :: "jsstring \<Rightarrow> jsstring \<Rightarrow> real \<Rightarrow> real \<Rightarrow> Receipt" where
  \<comment> \<open>the receipt of the scenarios: one item of price 85, tax rate 5, total 89.25\<close>
  "one_item_receipt nm d sub tx =
     \<lparr>date = d, storeName = [], storeAddress = [], billNumber = [],
      items = [\<lparr>name = nm, quantity = 1, unitPrice = 85, price = 85\<rparr>],
      subtotal = sub, tax = tx, taxRate = 5, discount = 0, total = 89.25,
      currency = [8377], rawText = []\<rparr>"

definition start_state :: "Receipt \<Rightarrow> vstate" where
  "start_state b = \<lparr>billData = b, validation = initial_validation\<rparr>"

definition scenario1 :: "jsstring \<Rightarrow> jsstring \<Rightarrow> Receipt" where
  \<comment> \<open>consistent figures: subtotal 85, tax 4.25\<close>
  "scenario1 nm d = one_item_receipt nm d 85 4.25"

definition scenario2 :: "jsstring \<Rightarrow> Receipt" where
  \<comment> \<open>the subtotal printed as 90\<close>
  "scenario2 nm = one_item_receipt nm [] 90 4.25"









subsection \<open>The closest tax rate and the score\<close>





lemma warning_deduction_nonneg: "0 \<le> lowWarningPenalty env \<Longrightarrow> 0 \<le> warning_deduction env sev"
  by (cases sev) (simp_all add: warning_deduction_def)

lemma sum_list_map_nonneg:
  fixes f :: "'a \<Rightarrow> int"
  assumes "\<And>x. 0 \<le> f x"
  shows "0 \<le> sum_list (map f xs)"
  by (induction xs) (simp_all add: assms)



lemma warning_deductions_nonneg:
  "0 \<le> lowWarningPenalty env \<Longrightarrow> 0 \<le> sum_list (map (\<lambda>w. warning_deduction env (severity w)) ws)"
  by (intro sum_list_map_nonneg warning_deduction_nonneg)


lemma exceptional_iff: "exceptional env b \<longleftrightarrow> raises b"
proof -
  let ?s0 = "\<lparr>billData = b, validation = initial_validation\<rparr>"
  obtain ws where "run_checks env ?s0
      = (if raises (billData ?s0) then Throw TypeError else Normal)
          (apply_effect (all_errors env (billData ?s0)) ws (all_flags (billData ?s0)) ?s0)"
    using run_checks_effect by blast
  then show ?thesis by (cases "raises b") (simp_all add: exceptional_def)
qed

lemma validateBill_errors: "\<not> exceptional env b \<Longrightarrow> errors (validateBill env b) = all_errors env b"
  using validateBill_normal[of b env] by (auto simp: exceptional_iff)

lemma validateBill_isValid:
  "\<not> exceptional env b \<Longrightarrow> isValid (validateBill env b) = (all_errors env b = [])"
  using validateBill_normal[of b env] by (auto simp: exceptional_iff)

lemma validateBill_score:
  "\<not> exceptional env b \<Longrightarrow>
   confidenceScore (validateBill env b)
     = max 0 (100 - deductions env (errors (validateBill env b)) (warnings (validateBill env b)))"
  using validateBill_normal[of b env] by (auto simp: exceptional_iff)

lemma validateBill_results:
  "\<not> exceptional env b \<Longrightarrow> algorithmResults (validateBill env b) = results_of (all_flags b)"
  using validateBill_normal[of b env] by (auto simp: exceptional_iff)




lemmas run_defs = validateBill_def validateBill_run_def run_checks_def finish_def
  validateMathematicalAccuracy_def validateTaxCalculations_def validateTotalAmount_def
  validateDateLogic_def analyzePatterns_def validateBusinessLogic_def detectAnomalies_def
  checkBenfordsLaw_def checkTimingAnomalies_def validatePricingConsistency_def
  validateItemCombinations_def categorizeItems_def categoryKeywords_def
  detectDuplicateItems_def detectPriceOutliers_def analyzeQuantityPatterns_def
  detectSuspiciousRounding_def tax_amount_check_def calculatedSubtotal_def
  push_error_def push_warning_def set_result_def issue_def initial_validation_def failure_result_def
  calculateConfidenceScore_def error_deduction_def warning_deduction_def
  is_multiple_of_def inherited_key_def js_def toLowerCase_def lower_unit_def trim_def is_space_def
  indexOf_def maxBillAge_def maxReasonablePrice_def daysDifference_def getDay_def getHours_def
  hd_indianTaxRates Let_def

lemmas host_defs = utc_host_def noon_2025_01_01_def iso_date_parse_def days_in_month_def
  days_from_civil_def is_leap_def

lemmas run_congs = Let_weak_cong seq_weak_cong try_catch_weak_cong

lemma closest_scenario2: "findClosestTaxRate (85 / 18) = 5"
  by (simp add: findClosestTaxRate_def indianTaxRates_def)


lemma closest_5: "findClosestTaxRate 5 = 5"
  by (simp add: findClosestTaxRate_def indianTaxRates_def)


text \<open>
  C1. The receipt of scenario 1 with the subtotal printed as 90: one item of price 85, tax
  rate 5, tax 4.25, no discount, total 89.25. The claim gives a score of 75, one
  deduction of 25 for the \<open>MATH_ERROR\<close>. The printed subtotal also enters the tax check
  (5 percent of 90 is 4.50, not 4.25) and the total check (90 + 4.25 is not 89.25), so two
  more errors are pushed and the score is at most 35.
\<close>

theorem C1_counterexample:
  "errors (validateBill (utc_host noon_2025_01_01) (scenario2 (js ''Rice'')))
     = [issue MATH_ERROR High (Some F_subtotal), issue TAX_ERROR Medium (Some F_tax),
        issue TOTAL_ERROR High (Some F_total)]
   \<and> confidenceScore (validateBill (utc_host noon_2025_01_01) (scenario2 (js ''Rice''))) \<noteq> 75"
  by (simp add: run_defs host_defs scenario2_def one_item_receipt_def closest_scenario2
      cong: run_congs)

text \<open>
  C1, amended. For every name of the item that does not make the run exceptional, the
  result holds exactly three errors, the \<open>MATH_ERROR\<close> of high severity, a \<open>TAX_ERROR\<close> of
  medium severity and a \<open>TOTAL_ERROR\<close> of high severity; it is not valid; and its score is
  100 - 25 - 15 - 25 = 35 less the deductions for its warnings, clamped at 0.
\<close>

theorem C1_scenario2:
  assumes "\<not> inherited_key (toLowerCase nm)"
  shows "let v = validateBill env (scenario2 nm)
         in errors v = [issue MATH_ERROR High (Some F_subtotal), issue TAX_ERROR Medium (Some F_tax),
                        issue TOTAL_ERROR High (Some F_total)]
            \<and> isValid v = False
            \<and> confidenceScore v
                 = max 0 (35 - sum_list (map (\<lambda>w. warning_deduction env (severity w)) (warnings v)))
            \<and> (0 \<le> lowWarningPenalty env \<longrightarrow> confidenceScore v \<le> 35)"
proof -
  let ?b = "scenario2 nm"
  let ?v = "validateBill env ?b"
  have ne: "\<not> exceptional env ?b"
    using assms by (simp add: exceptional_iff raises_def scenario2_def one_item_receipt_def)
  have a: "all_errors env ?b = [issue MATH_ERROR High (Some F_subtotal),
                        issue TAX_ERROR Medium (Some F_tax), issue TOTAL_ERROR High (Some F_total)]"
    by (simp add: all_errors_def math_errors_def subtotal_mismatch_def calculatedSubtotal_def
        item_errors_def tax_errors_def rate_mismatch_def amount_errors_def closest_scenario2
        total_errors_def total_mismatch_def date_errors_def future_date_def business_errors_def
        scenario2_def one_item_receipt_def)
  have e: "errors ?v = [issue MATH_ERROR High (Some F_subtotal), issue TAX_ERROR Medium (Some F_tax),
                        issue TOTAL_ERROR High (Some F_total)]"
    using ne a by (simp add: validateBill_errors)
  have i: "isValid ?v = False"
    using ne a by (simp add: validateBill_isValid)
  have s: "confidenceScore ?v
             = max 0 (35 - sum_list (map (\<lambda>w. warning_deduction env (severity w)) (warnings ?v)))"
    unfolding validateBill_score[OF ne] e
    by (simp add: deductions_def error_deduction_def)
  have "0 \<le> lowWarningPenalty env \<longrightarrow> confidenceScore ?v \<le> 35"
    using s warning_deductions_nonneg[of env "warnings ?v"] by auto
  then show ?thesis using e i s by (simp add: Let_def)
qed

theorem C1_witness:
  "\<not> inherited_key (toLowerCase (js ''Rice''))
   \<and> isValid (validateBill (utc_host noon_2025_01_01) (scenario2 (js ''Rice''))) = False
   \<and> confidenceScore (validateBill (utc_host noon_2025_01_01) (scenario2 (js ''Rice''))) \<le> 35"
proof -
  have h: "\<not> inherited_key (toLowerCase (js ''Rice''))"
    by (simp add: inherited_key_def toLowerCase_def lower_unit_def js_def)
  have p: "0 \<le> lowWarningPenalty (utc_host noon_2025_01_01)"
    by (simp add: utc_host_def)
  show ?thesis
    using h p C1_scenario2 [OF h, of "utc_host noon_2025_01_01"]
    unfolding Let_def by blast
qed


subsection \<open>The date check\<close>

lemma future_date_iff:
  "future_date env b
     \<longleftrightarrow> date b \<noteq> [] \<and> (\<exists>t. date_parse env (date b) = Some t \<and> daysDifference env t < - 1)"
  by (auto simp: future_date_def split: option.splits)

lemma future_issue_only_from_date_check:
  "issue DATE_ERROR High (Some F_date) \<in> set (all_errors env b) \<longleftrightarrow> future_date env b"
  by (auto simp: all_errors_def math_errors_def item_errors_def tax_errors_def amount_errors_def
      total_errors_def business_errors_def date_errors_def split: if_splits)

lemma validateBill_exceptional: "exceptional env b \<Longrightarrow> validateBill env b = failure_result"
  by (simp add: exceptional_iff validateBill_raises)

text \<open>
  C4. A receipt dated tomorrow is less than one day ahead of the clock, and the check
  asks for more than one day: at noon of 1 January 2025 the date 2025-01-02, which the
  host reads as the midnight twelve hours later, raises no error and the receipt of
  scenario 1 is valid.
\<close>

theorem C4_counterexample:
  "date_parse (utc_host noon_2025_01_01) (js ''2025-01-02'') = Some (noon_2025_01_01 + 12 * 3600000)
   \<and> errors (validateBill (utc_host noon_2025_01_01) (scenario1 (js ''Rice'') (js ''2025-01-02''))) = []
   \<and> isValid (validateBill (utc_host noon_2025_01_01) (scenario1 (js ''Rice'') (js ''2025-01-02'')))
      = True"
  by (simp add: run_defs host_defs scenario1_def one_item_receipt_def closest_5 cong: run_congs)

text \<open>
  C4, amended. The date check ends normally and appends one error, of type \<open>DATE_ERROR\<close>,
  high severity and field \<open>date\<close>, exactly when the receipt has a date, the date is valid
  and \<open>daysDifference\<close>, the clock minus the bill date in days, is below -1. On a run
  without exception this error is in the result exactly under that condition, and the
  result is then not valid. A date that lies at most one day ahead of the clock, as
  tomorrow's date does in universal time, never gives this error.
\<close>

theorem C4_future_date:
  "let s' = state_of (validateDateLogic env s);
       futureIssue = issue DATE_ERROR High (Some F_date);
       future = (\<lambda>b. date b \<noteq> [] \<and> (\<exists>t. date_parse env (date b) = Some t \<and> daysDifference env t < - 1))
   in validateDateLogic env s = Normal s'
      \<and> errors (validation s') = errors (validation s) @ (if future (billData s) then [futureIssue] else [])
      \<and> (\<not> exceptional env r \<longrightarrow> (futureIssue \<in> set (errors (validateBill env r)) \<longleftrightarrow> future r))
      \<and> (\<not> exceptional env r \<and> future r \<longrightarrow> isValid (validateBill env r) = False)
      \<and> (date_parse env (date r) = Some t \<and> t - 86400000 \<le> now_ms env \<longrightarrow>
            futureIssue \<notin> set (errors (validateBill env r)))"
proof -
  let ?f = "issue DATE_ERROR High (Some F_date)"
  have n: "validateDateLogic env s = Normal (state_of (validateDateLogic env s))"
    by (simp add: validateDateLogic_effect)
  have e: "errors (validation (state_of (validateDateLogic env s)))
             = errors (validation s) @ (if future_date env (billData s) then [?f] else [])"
    by (simp add: validateDateLogic_effect date_errors_def)
  have m: "\<not> exceptional env r \<longrightarrow> (?f \<in> set (errors (validateBill env r)) \<longleftrightarrow> future_date env r)"
    by (simp add: validateBill_errors future_issue_only_from_date_check)
  have v: "\<not> exceptional env r \<and> future_date env r \<longrightarrow> isValid (validateBill env r) = False"
  proof
    assume h: "\<not> exceptional env r \<and> future_date env r"
    then have "?f \<in> set (all_errors env r)"
      by (simp add: future_issue_only_from_date_check)
    then have "all_errors env r \<noteq> []" by auto
    then show "isValid (validateBill env r) = False"
      using h by (simp add: validateBill_isValid)
  qed
  have t: "date_parse env (date r) = Some t \<and> t - 86400000 \<le> now_ms env \<longrightarrow>
            ?f \<notin> set (errors (validateBill env r))"
  proof
    assume h: "date_parse env (date r) = Some t \<and> t - 86400000 \<le> now_ms env"
    then have "- 1 \<le> daysDifference env t"
      by (simp add: daysDifference_def field_simps)
    then have nf: "\<not> future_date env r"
      using h by (simp add: future_date_def)
    show "?f \<notin> set (errors (validateBill env r))"
    proof (cases "exceptional env r")
      case True
      then show ?thesis by (simp add: validateBill_exceptional failure_result_def)
    next
      case False
      then show ?thesis using nf by (simp add: validateBill_errors future_issue_only_from_date_check)
    qed
  qed
  show ?thesis
    unfolding Let_def using n e m v t by (simp add: future_date_iff)
qed

lemma not_exceptional_Rice: "\<not> exceptional env (scenario1 (js ''Rice'') d)"
  by (simp add: exceptional_iff raises_def scenario1_def one_item_receipt_def inherited_key_def
      toLowerCase_def lower_unit_def js_def)

lemma parse_2025_01_03:
  "date_parse (utc_host noon_2025_01_01) (js ''2025-01-03'') = Some (noon_2025_01_01 + 36 * 3600000)"
  by (simp add: host_defs js_def)

theorem C4_witness:
  "\<not> exceptional (utc_host noon_2025_01_01) (scenario1 (js ''Rice'') (js ''2025-01-03''))
   \<and> issue DATE_ERROR High (Some F_date)
        \<in> set (errors (validateBill (utc_host noon_2025_01_01) (scenario1 (js ''Rice'') (js ''2025-01-03''))))
   \<and> isValid (validateBill (utc_host noon_2025_01_01) (scenario1 (js ''Rice'') (js ''2025-01-03'')))
       = False"
proof -
  let ?env = "utc_host noon_2025_01_01"
  let ?r = "scenario1 (js ''Rice'') (js ''2025-01-03'')"
  have ne: "\<not> exceptional ?env ?r" by (rule not_exceptional_Rice)
  have d: "date ?r = js ''2025-01-03''" by (simp add: scenario1_def one_item_receipt_def)
  have "daysDifference ?env (noon_2025_01_01 + 36 * 3600000) < - 1"
    by (simp add: daysDifference_def utc_host_def)
  then have f: "date ?r \<noteq> [] \<and> (\<exists>t. date_parse ?env (date ?r) = Some t \<and> daysDifference ?env t < - 1)"
    unfolding d parse_2025_01_03 by (simp add: js_def)
  show ?thesis
    using ne f C4_future_date [of ?env "start_state ?r" ?r 0]
    unfolding Let_def by blast
qed


subsection \<open>The published flags\<close>

text \<open>
  C10. On a run without exception the flags \<open>dateValidation\<close> and \<open>patternAnalysis\<close> of the
  result are \<open>true\<close>, whatever the date check and the pattern checks have pushed: the
  receipt of the witness is dated beyond tomorrow and carries the error of a future
  date.
\<close>

theorem C10_flags_always_true:
  "\<not> exceptional env b \<Longrightarrow>
   algorithmResults (validateBill env b) dateValidation = Some True
   \<and> algorithmResults (validateBill env b) patternAnalysis = Some True"
  by (simp add: validateBill_results results_of_def all_flags_def)

theorem C10_witness:
  "\<not> exceptional (utc_host noon_2025_01_01) (scenario1 (js ''Rice'') (js ''2025-01-03''))
   \<and> errors (validateBill (utc_host noon_2025_01_01) (scenario1 (js ''Rice'') (js ''2025-01-03'')))
       = [issue DATE_ERROR High (Some F_date)]
   \<and> algorithmResults (validateBill (utc_host noon_2025_01_01) (scenario1 (js ''Rice'') (js ''2025-01-03'')))
        dateValidation = Some True
   \<and> algorithmResults (validateBill (utc_host noon_2025_01_01) (scenario1 (js ''Rice'') (js ''2025-01-03'')))
        patternAnalysis = Some True"
proof -
  let ?env = "utc_host noon_2025_01_01"
  let ?r = "scenario1 (js ''Rice'') (js ''2025-01-03'')"
  have ne: "\<not> exceptional ?env ?r" by (rule not_exceptional_Rice)
  have e: "errors (validateBill ?env ?r) = [issue DATE_ERROR High (Some F_date)]"
    by (simp add: run_defs host_defs scenario1_def one_item_receipt_def closest_5 cong: run_congs)
  show ?thesis
    using ne e C10_flags_always_true [OF ne] by blast
qed

subsection \<open>Exceptions\<close>

definition default_receipt :: Receipt where
  "default_receipt =
     \<lparr>date = [], storeName = [], storeAddress = [], billNumber = [], items = [],
      subtotal = 0, tax = 0, taxRate = 0, discount = 0, total = 0, currency = [8377], rawText = []\<rparr>"

definition half_rupee_item :: LineItem where
  "half_rupee_item = \<lparr>name = js ''toffee'', quantity = 1, unitPrice = 0.5, price = 0.5\<rparr>"

definition ten_toffees :: Receipt where
  \<comment> \<open>ten items of half a rupee, with consistent subtotal, tax of 5 percent and total\<close>
  "ten_toffees =
     \<lparr>date = [], storeName = [], storeAddress = [], billNumber = [],
      items = replicate 10 half_rupee_item,
      subtotal = 5, tax = 0.25, taxRate = 5, discount = 0, total = 5.25,
      currency = [8377], rawText = []\<rparr>"


lemma upt_0_10: "[0 ..< 10] = [0, 1, 2, 3, 4, 5, 6, 7, 8, 9 :: nat]"
  by (simp add: upt_rec)

lemma replicate_10: "replicate 10 x = [x, x, x, x, x, x, x, x, x, x]"
  by (simp add: numeral_eq_Suc)

lemma ten_toffees_result:
  "validateBill (utc_host noon_2025_01_01) ten_toffees =
     \<lparr>isValid = True, errors = [],
      warnings = [issue DATE_ERROR Low (Some F_date), issue DUPLICATE_ITEMS Medium (Some F_items)],
      confidenceScore = 93,
      algorithmResults = [mathVerification \<mapsto> True, taxValidation \<mapsto> True, totalCheck \<mapsto> True,
                          dateValidation \<mapsto> True, patternAnalysis \<mapsto> True]\<rparr>"
  by (simp add: run_defs host_defs ten_toffees_def half_rupee_item_def
      first_char_def digit_keys_def zScore_exceeds_def closest_5 upt_0_10 replicate_10 cong: run_congs)

lemma ten_toffees_benford:
  "checkBenfordsLaw (start_state ten_toffees) = Throw TypeError (start_state ten_toffees)"
  by (simp add: checkBenfordsLaw_def start_state_def ten_toffees_def half_rupee_item_def
      first_char_def digit_keys_def Let_def)

text \<open>
  C6. The claim sends every exception of a check to the handler of \<open>validateBill\<close>. Six of
  the seven checks have a handler of their own. On ten items of half a rupee the
  Benford check calls \<open>reduce\<close> on an empty array of keys, which raises; the handler
  of the anomaly detection takes the exception, and the result is valid, without a
  \<open>VALIDATION_ERROR\<close>.
\<close>

theorem C6_counterexample:
  "checkBenfordsLaw (start_state ten_toffees) = Throw TypeError (start_state ten_toffees)
   \<and> errors (validateBill (utc_host noon_2025_01_01) ten_toffees) = []
   \<and> isValid (validateBill (utc_host noon_2025_01_01) ten_toffees) = True
   \<and> confidenceScore (validateBill (utc_host noon_2025_01_01) ten_toffees) \<noteq> 0"
  by (simp add: ten_toffees_result ten_toffees_benford)

text \<open>
  C6, amended. \<open>validateBill\<close> ends normally on every receipt. The checks of the
  mathematics, the tax, the total, the date, the patterns and the anomalies end normally
  from every state: what is raised inside them is handled there. An exception reaches
  the handler of \<open>validateBill\<close> exactly when the business logic raises, which it does
  exactly when the lower-cased name of an item is an inherited key of the grouping
  object; the result is then the one with a single \<open>VALIDATION_ERROR\<close> of high severity,
  score 0, not valid and no flags. The receipt with all fields at their defaults gives
  no exception.
\<close>

theorem C6_never_raises:
  "(\<exists>s'. validateBill_run env b = Normal s')
   \<and> (\<exists>s'. validateMathematicalAccuracy s = Normal s')
   \<and> (\<exists>s'. validateTaxCalculations s = Normal s')
   \<and> (\<exists>s'. validateTotalAmount s = Normal s')
   \<and> (\<exists>s'. validateDateLogic env s = Normal s')
   \<and> (\<exists>s'. analyzePatterns s = Normal s')
   \<and> (\<exists>s'. detectAnomalies env s = Normal s')
   \<and> (exceptional env b \<longleftrightarrow> list_ex (\<lambda>item. inherited_key (toLowerCase (name item))) (items b))
   \<and> (exceptional env b \<longrightarrow>
        validateBill env b
          = \<lparr>isValid = False, errors = [issue VALIDATION_ERROR High None], warnings = [],
             confidenceScore = 0, algorithmResults = Map.empty\<rparr>)
   \<and> \<not> exceptional env default_receipt"
proof -
  have r: "\<exists>s'. validateBill_run env b = Normal s'"
    using validateBill_run_raises[of b env] validateBill_run_normal[of b env]
    by (cases "raises b") auto
  have p: "\<exists>s'. analyzePatterns s = Normal s'"
    using analyzePatterns_effect[of s] by blast
  have a: "\<exists>s'. detectAnomalies env s = Normal s'"
    using detectAnomalies_effect[of env s] by blast
  have x: "exceptional env b \<longrightarrow>
        validateBill env b
          = \<lparr>isValid = False, errors = [issue VALIDATION_ERROR High None], warnings = [],
             confidenceScore = 0, algorithmResults = Map.empty\<rparr>"
    using validateBill_exceptional[of env b] by (simp add: failure_result_def)
  have d: "\<not> exceptional env default_receipt"
    by (simp add: exceptional_iff raises_def default_receipt_def)
  show ?thesis
    using r p a x d
    by (simp add: validateMathematicalAccuracy_effect validateTaxCalculations_effect
        validateTotalAmount_effect validateDateLogic_effect exceptional_iff raises_def)
qed

theorem C6_witness:
  "exceptional (utc_host noon_2025_01_01) (scenario1 (js ''Constructor'') [])
   \<and> validateBill (utc_host noon_2025_01_01) (scenario1 (js ''Constructor'') [])
       = \<lparr>isValid = False, errors = [issue VALIDATION_ERROR High None], warnings = [],
          confidenceScore = 0, algorithmResults = Map.empty\<rparr>"
proof -
  have "list_ex (\<lambda>item. inherited_key (toLowerCase (name item)))
          (items (scenario1 (js ''Constructor'') []))"
    by (simp add: scenario1_def one_item_receipt_def inherited_key_def toLowerCase_def
        lower_unit_def js_def)
  then show ?thesis
    using C6_never_raises [of "utc_host noon_2025_01_01" "scenario1 (js ''Constructor'') []"
        "start_state default_receipt"]
    by blast
qed

subsection \<open>The input is left as it is\<close>

lemma validateBusinessLogic_frame: "billData (state_of (validateBusinessLogic s)) = billData s"
proof -
  obtain ws where "validateBusinessLogic s
     = (if raises (billData s) then Throw TypeError else Normal)
         (apply_effect (business_errors (billData s)) ws [] s)"
    using validateBusinessLogic_effect by blast
  then show ?thesis by (cases "raises (billData s)") simp_all
qed

lemma analyzePatterns_frame: "billData (state_of (analyzePatterns s)) = billData s"
proof -
  obtain ws where "analyzePatterns s = Normal (apply_effect [] ws [patternAnalysis] s)"
    using analyzePatterns_effect by blast
  then show ?thesis by simp
qed

lemma detectAnomalies_frame: "billData (state_of (detectAnomalies env s)) = billData s"
proof -
  obtain ws where "detectAnomalies env s = Normal (apply_effect [] ws [] s)"
    using detectAnomalies_effect by blast
  then show ?thesis by simp
qed

lemma validateBill_run_frame: "\<exists>v. validateBill_run env b = Normal \<lparr>billData = b, validation = v\<rparr>"
  using validateBill_run_raises[of b env] validateBill_run_normal[of b env]
  by (cases "raises b") auto

text \<open>
  C8. The run of \<open>validateBill\<close> ends in a state whose \<open>billData\<close> is the receipt it was
  given, field for field; so does each of the seven checks, whether it ends normally or
  raises. The result object is built inside the run, from the initial object of the
  function; the model has no object shared between calls.
\<close>

theorem C8_input_unchanged:
  "billData (state_of (validateBill_run env b)) = b
   \<and> validation (state_of (validateBill_run env b)) = validateBill env b
   \<and> billData (state_of (validateMathematicalAccuracy s)) = billData s
   \<and> billData (state_of (validateTaxCalculations s)) = billData s
   \<and> billData (state_of (validateTotalAmount s)) = billData s
   \<and> billData (state_of (validateDateLogic env s)) = billData s
   \<and> billData (state_of (analyzePatterns s)) = billData s
   \<and> billData (state_of (validateBusinessLogic s)) = billData s
   \<and> billData (state_of (detectAnomalies env s)) = billData s"
proof -
  obtain v where "validateBill_run env b = Normal \<lparr>billData = b, validation = v\<rparr>"
    using validateBill_run_frame by blast
  then have "billData (state_of (validateBill_run env b)) = b" by simp
  then show ?thesis
    by (simp add: validateBill_def validateMathematicalAccuracy_effect validateTaxCalculations_effect
        validateTotalAmount_effect validateDateLogic_effect analyzePatterns_frame
        validateBusinessLogic_frame detectAnomalies_frame)
qed

theorem C8_witness:
  "billData (state_of (validateBill_run (utc_host noon_2025_01_01) (scenario2 (js ''Rice''))))
     = scenario2 (js ''Rice'')
   \<and> billData (state_of (validateBill_run (utc_host noon_2025_01_01) (scenario1 (js ''Constructor'') [])))
     = scenario1 (js ''Constructor'') []"
  using C8_input_unchanged [of "utc_host noon_2025_01_01" "scenario2 (js ''Rice'')"]
    C8_input_unchanged [of "utc_host noon_2025_01_01" "scenario1 (js ''Constructor'') []"]
  by blast


section \<open>The parser\<close>

subsection \<open>Evaluation of patterns\<close>

lemma rep_1_2: "rep (Suc 0) 2 r = Seq r (opt (Seq r Eps))"
  by (simp add: rep_def eval_nat_numeral)

lemma rep_2_4: "rep 2 4 r = Seq r (Seq r (opt (Seq r (opt (Seq r Eps)))))"
  by (simp add: rep_def eval_nat_numeral)

lemma rep_2_2: "rep 2 2 r = Seq r (Seq r Eps)"
  by (simp add: rep_def eval_nat_numeral)

lemma rep_3_3: "rep 3 3 r = Seq r (Seq r (Seq r Eps))"
  by (simp add: rep_def eval_nat_numeral)

lemma at_least_2: "at_least 2 r = Seq r (Seq r (Star r))"
  by (simp add: at_least_def eval_nat_numeral)

lemma rep_3_15: "rep 3 15 r = Seq r (Seq r (Seq r (upto_times 12 r)))"
  by (simp add: rep_def eval_nat_numeral)

lemma upto_times_12:
  "upto_times 12 r = opt (Seq r (opt (Seq r (opt (Seq r (opt (Seq r (opt (Seq r (opt (Seq r
     (opt (Seq r (opt (Seq r (opt (Seq r (opt (Seq r (opt (Seq r (opt (Seq r Eps)))))))))))))))))))))))"
  by (simp add: eval_nat_numeral)

lemma map_weak_cong: "xs = ys \<Longrightarrow> map f xs = map f ys"
  by simp

lemmas parse_congs = Let_weak_cong map_weak_cong

lemmas rx_defs = rx_matchAll.simps rx_test_def group1_def
  rx_replace_all_def rx_replace_first_def unit_of_def digit_def space_def ch_def ch_i_def
  upper_unit_def lower_unit_def lit_def lit_i_def opt_def plus_def
  rep_1_2 rep_2_4 rep_2_2 rep_3_3 at_least_2 rep_3_15 upto_times_12
  is_word_unit_def word_before_def word_ahead_def last_unit_def then_match_def
  is_space_def js_def Let_def

lemmas parse_defs = is_digit_def parseInt_def parseFloat_def toFixed2_def
  amount_def rupee_def pricePatterns_def priceRegex_def quantityRegex_def leadingNumber_def
  letters2_def totalsLabel_def extractPriceFromLine_def looksLikeItemLine_def parseItemLine_def
  trim_def parseBillData_def preprocessText_def extractDate_def findDateInLine_def
  formatDate_def datePatterns_def date_separator_def some_keyword_def extractStoreName_def
  upperName_def extractStoreAddress_def addressShape_def extractBillNumber_def billNumberLabel_def
  code_unit_class_def standaloneCode_def percentage_def extractItems_def
  List.map_filter_def extractFinancialTotals_def totals_of_line_def positive_price_def
  calculateDerivedValues_def detectCurrency_def toLowerCase_def

subsection \<open>Two raw texts\<close>

definition zero_quantity_parsed :: ParsedReceipt where
  "zero_quantity_parsed =
     \<lparr>date = [], storeName = js ''Rice 0kg Rs.85.00'', storeAddress = [], billNumber = [],
      items = [\<lparr>name = js ''Rice'', quantity = 0, unitPrice = PosInfinity, price = 85\<rparr>],
      subtotal = 85, tax = 0, taxRate = 0, discount = 0, total = 85,
      currency = [8377], rawText = js ''Rice 0kg Rs.85.00''\<rparr>"

definition constructor_parsed :: ParsedReceipt where
  "constructor_parsed =
     \<lparr>date = [], storeName = js ''constructor Rs.85.00'', storeAddress = [], billNumber = [],
      items = [\<lparr>name = js ''constructor'', quantity = 1, unitPrice = Finite 85, price = 85\<rparr>],
      subtotal = 85, tax = 0, taxRate = 0, discount = 0, total = 85,
      currency = [8377], rawText = js ''constructor Rs.85.00''\<rparr>"

definition constructor_receipt :: Receipt where
  "constructor_receipt =
     \<lparr>date = [], storeName = js ''constructor Rs.85.00'', storeAddress = [], billNumber = [],
      items = [\<lparr>name = js ''constructor'', quantity = 1, unitPrice = 85, price = 85\<rparr>],
      subtotal = 85, tax = 0, taxRate = 0, discount = 0, total = 85,
      currency = [8377], rawText = js ''constructor Rs.85.00''\<rparr>"

text \<open>
  C9. The one line \<open>Rice 0kg Rs.85.00\<close> has the quantity marker \<open>0kg\<close>. The parser reads
  the quantity 0 from it and divides the price by it: the item it returns has quantity
  0, which is not positive, and a unit price that is not finite. The line
  \<open>constructor Rs.85.00\<close> below has no marker and gets the quantity 1.
\<close>

theorem C9_zero_quantity:
  "parseBillData (utc_host noon_2025_01_01) (Text (js ''Rice 0kg Rs.85.00''))
     = Inr zero_quantity_parsed
   \<and> map quantity (items zero_quantity_parsed) = [0]"
  by (simp add: rx_defs parse_defs zero_quantity_parsed_def cong: parse_congs)

text \<open>
  C5. On the one line \<open>constructor Rs.85.00\<close> the parser finds one item and no printed
  subtotal or total, and derives both as 85. The validator then groups the items by
  name in a plain object; the key \<open>constructor\<close> finds the inherited member, the call of
  \<open>push\<close> on it raises, and the handler of \<open>validateBill\<close> returns the result without
  flags: neither \<open>mathVerification\<close> nor \<open>totalCheck\<close> is \<open>true\<close>.
\<close>

theorem C5_failing_input:
  "parseBillData (utc_host noon_2025_01_01) (Text (js ''constructor Rs.85.00''))
     = Inr constructor_parsed
   \<and> to_receipt constructor_parsed = Some constructor_receipt
   \<and> algorithmResults (validateBill (utc_host noon_2025_01_01) constructor_receipt) mathVerification
       \<noteq> Some True
   \<and> algorithmResults (validateBill (utc_host noon_2025_01_01) constructor_receipt) totalCheck
       \<noteq> Some True
   \<and> validateBill (utc_host noon_2025_01_01) constructor_receipt = failure_result"
proof -
  have p: "parseBillData (utc_host noon_2025_01_01) (Text (js ''constructor Rs.85.00''))
             = Inr constructor_parsed"
    by (simp add: rx_defs parse_defs constructor_parsed_def cong: parse_congs)
  have t: "to_receipt constructor_parsed = Some constructor_receipt"
    by (simp add: to_receipt_def finite_item_def constructor_parsed_def constructor_receipt_def)
  have v: "validateBill (utc_host noon_2025_01_01) constructor_receipt = failure_result"
    by (simp add: run_defs host_defs constructor_receipt_def cong: run_congs)
  show ?thesis
    using p t v by (simp add: failure_result_def)
qed

subsection \<open>Failure of the parser\<close>

lemma section_bounds_end:
  "i + length lines = n \<Longrightarrow> snd (section_bounds lines i inside start n) \<le> n"
  by (induction lines i inside start n rule: section_bounds.induct) (auto simp: Let_def)

lemma extractItems_reads_in_range:
  "snd (section_bounds lines 0 False (- 1) (length lines)) \<le> length lines"
  by (rule section_bounds_end) simp






subsection \<open>The round trip on derived values\<close>

definition cents :: "real \<Rightarrow> bool" where
  \<comment> \<open>a whole number of hundredths, as every amount the patterns capture is\<close>
  "cents x = (\<exists>k :: int. x = real_of_int k / 100)"

lemma cents_0: "cents 0"
  unfolding cents_def by (rule exI[of _ 0]) simp

lemma cents_add: "cents x \<Longrightarrow> cents y \<Longrightarrow> cents (x + y)"
proof -
  assume "cents x" and "cents y"
  then obtain k l :: int where "x = real_of_int k / 100" and "y = real_of_int l / 100"
    unfolding cents_def by blast
  then have "x + y = real_of_int (k + l) / 100" by (simp add: add_divide_distrib)
  then show ?thesis unfolding cents_def by blast
qed

lemma cents_diff: "cents x \<Longrightarrow> cents y \<Longrightarrow> cents (x - y)"
proof -
  assume "cents x" and "cents y"
  then obtain k l :: int where "x = real_of_int k / 100" and "y = real_of_int l / 100"
    unfolding cents_def by blast
  then have "x - y = real_of_int (k - l) / 100" by (simp add: diff_divide_distrib)
  then show ?thesis unfolding cents_def by blast
qed

lemma toFixed2_cents: "cents x \<Longrightarrow> toFixed2 x = x"
proof -
  assume "cents x"
  then obtain k :: int where x: "x = real_of_int k / 100"
    unfolding cents_def by blast
  have a: "abs x * 100 = real_of_int (abs k)" by (simp add: x)
  have f: "\<lfloor>real_of_int (abs k) + 1 / 2\<rfloor> = abs k" by linarith
  have s: "sgn x * real_of_int (abs k) = real_of_int k"
    by (cases "k < 0"; cases "k = 0") (simp_all add: x sgn_if)
  have "sgn x * (real_of_int \<lfloor>abs x * 100 + 1 / 2\<rfloor> / 100) = x"
    unfolding a f using s by (simp add: x)
  then show ?thesis by (simp add: toFixed2_def)
qed

lemma cents_price_sum:
  "list_all (\<lambda>item. cents (price item)) its \<Longrightarrow> cents a \<Longrightarrow>
   cents (foldl (\<lambda>sum item. sum + price item) a its)"
  by (induction its arbitrary: a) (simp_all add: cents_add)

lemma finite_items_prices: "finite_items its = Some xs \<Longrightarrow> map price xs = map price its"
proof (induction its arbitrary: xs)
  case Nil
  then show ?case by simp
next
  case (Cons item rest)
  then show ?case
    by (auto simp: finite_item_def split: option.splits jsnum.splits)
qed

lemma price_fold_map:
  "foldl (\<lambda>sum item. sum + price item) a its = foldl (+) a (map price its)"
  by (induction its arbitrary: a) simp_all

lemma results_of_member: "c \<in> set cs \<Longrightarrow> results_of cs c = Some True"
proof -
  have "foldl (\<lambda>m c. m(c \<mapsto> True)) m cs c = (if c \<in> set cs then Some True else m c)" for m
    by (induction cs arbitrary: m) auto
  then show "c \<in> set cs \<Longrightarrow> results_of cs c = Some True"
    by (simp add: results_of_def)
qed

text \<open>
  The round trip of C5 on the runs without exception: when neither a subtotal nor a
  total was read from the text, the amounts are whole hundredths and the unit prices are
  finite, the derived receipt passes both checks.
\<close>

lemma derived_round_trip:
  fixes b :: ParsedReceipt
  assumes "subtotal b = 0" and "total b = 0"
    and "list_all (\<lambda>item. cents (price item)) (items b)" and "cents (tax b)" and "cents (discount b)"
    and "to_receipt (calculateDerivedValues b) = Some r"
    and "\<not> exceptional env r"
  shows "algorithmResults (validateBill env r) mathVerification = Some True
         \<and> algorithmResults (validateBill env r) totalCheck = Some True"
proof -
  let ?sum = "foldl (\<lambda>sum item. sum + price item) 0 (items b)"
  let ?p = "calculateDerivedValues b"
  have cs: "cents ?sum" using assms(3) cents_0 by (rule cents_price_sum)
  have ct: "cents (?sum + tax b - discount b)"
    using cs assms(4,5) by (intro cents_diff cents_add)
  have e: "(if length (items b) > 0 then ?sum else 0) = ?sum" by (cases "items b") simp_all
  have sub: "subtotal ?p = ?sum" and tx: "tax ?p = tax b" and dis: "discount ?p = discount b"
    and tot: "total ?p = ?sum + tax b - discount b" and its: "items ?p = items b"
    using assms(1,2,4,5) cs ct
    by (auto simp: calculateDerivedValues_def Let_def toFixed2_cents)
  obtain xs where xs: "finite_items (items ?p) = Some xs"
    and r: "r = \<lparr>date = date ?p, storeName = storeName ?p, storeAddress = storeAddress ?p,
                billNumber = billNumber ?p, items = xs, subtotal = subtotal ?p, tax = tax ?p,
                taxRate = taxRate ?p, discount = discount ?p, total = total ?p,
                currency = currency ?p, rawText = rawText ?p\<rparr>"
    using assms(6) by (auto simp: to_receipt_def split: option.splits)
  have "map price xs = map price (items b)"
    using xs its finite_items_prices by metis
  then have "calculatedSubtotal (items r) = ?sum"
    by (simp add: r calculatedSubtotal_def price_fold_map)
  then have m: "\<not> subtotal_mismatch r"
    by (simp add: subtotal_mismatch_def r sub)
  have t: "\<not> total_mismatch r"
    by (simp add: total_mismatch_def r sub tx dis tot)
  have "mathVerification \<in> set (all_flags r)" and "totalCheck \<in> set (all_flags r)"
    using m t by (simp_all add: all_flags_def math_flags_def total_flags_def)
  then show ?thesis
    using assms(7) by (simp add: validateBill_results results_of_member)
qed

end
